theory Spec2Isabelle
  imports Complex_Main
begin

section \<open>JavaScript numbers, dates and the Math functions used\<close>

text \<open>
  A JavaScript \<open>number\<close> is modelled as a real number or \<open>NaN\<close>. The finite doubles are
  idealised as reals: arithmetic is exact, there is no rounding and no signed zero, so a
  value of the code can differ from the one here in its last digits. The infinities are
  left out: the only division whose divisor can vanish is the one by \<open>sin d\<close> in the two
  great-circle interpolators, and what it yields there is described at
  \<open>calculateGreatCircle\<close>.
\<close>

datatype number = Num real | NaN

text \<open>Comparisons of a number with a constant; every comparison with \<open>NaN\<close> is false.\<close>

fun nlt :: "number \<Rightarrow> real \<Rightarrow> bool" where
  "nlt (Num x) c = (x < c)"
| "nlt NaN c = False"

fun nle :: "number \<Rightarrow> real \<Rightarrow> bool" where
  "nle (Num x) c = (x \<le> c)"
| "nle NaN c = False"

fun ngt :: "number \<Rightarrow> real \<Rightarrow> bool" where
  "ngt (Num x) c = (x > c)"
| "ngt NaN c = False"

fun nge :: "number \<Rightarrow> real \<Rightarrow> bool" where
  "nge (Num x) c = (x \<ge> c)"
| "nge NaN c = False"

text \<open>Arithmetic on numbers: \<open>NaN\<close> is absorbing.\<close>

fun nadd :: "number \<Rightarrow> number \<Rightarrow> number" where
  "nadd (Num x) (Num y) = Num (x + y)"
| "nadd _ _ = NaN"

fun nsub :: "number \<Rightarrow> number \<Rightarrow> number" where
  "nsub (Num x) (Num y) = Num (x - y)"
| "nsub _ _ = NaN"

fun nmul :: "number \<Rightarrow> number \<Rightarrow> number" where
  "nmul (Num x) (Num y) = Num (x * y)"
| "nmul _ _ = NaN"

text \<open>\<open>Math.trunc\<close>, the integer part towards zero.\<close>

definition trunc :: "real \<Rightarrow> int" where
  "trunc x = (if 0 \<le> x then \<lfloor>x\<rfloor> else \<lceil>x\<rceil>)"

text \<open>
  The remainder operator \<open>x % m\<close> on finite numbers with \<open>m \<noteq> 0\<close>: the result has the
  sign of the dividend.
\<close>

definition jsmod :: "real \<Rightarrow> real \<Rightarrow> real" where
  "jsmod x m = x - m * of_int (trunc (x / m))"

fun nmod :: "number \<Rightarrow> real \<Rightarrow> number" where
  "nmod (Num x) m = Num (jsmod x m)"
| "nmod NaN m = NaN"

text \<open>
  \<open>Math.atan2(y, x)\<close> on finite arguments. Without signed zeros, \<open>atan2(0, x)\<close> for
  negative \<open>x\<close> is \<open>\<pi>\<close> and \<open>atan2(0, 0)\<close> is \<open>0\<close>, the values for positive zeros.
\<close>

definition atan2 :: "real \<Rightarrow> real \<Rightarrow> real" where
  "atan2 y x =
     (if 0 < x then arctan (y / x)
      else if x < 0 then (if 0 \<le> y then arctan (y / x) + pi else arctan (y / x) - pi)
      else if 0 < y then pi / 2
      else if y < 0 then - (pi / 2)
      else 0)"

text \<open>
  A \<open>Date\<close> holds a time value: an integral number of milliseconds since the epoch, at
  most \<open>8.64e15\<close> in absolute value; \<open>new Date(x)\<close> truncates a finite \<open>x\<close> and yields
  an invalid date (\<open>None\<close>) beyond that range. \<open>toISOString\<close> throws a \<open>RangeError\<close> on
  an invalid date.
\<close>

definition newDate :: "real \<Rightarrow> int option" where
  "newDate x = (if \<bar>x\<bar> \<le> 8640000000000000 then Some (trunc x) else None)"

datatype error =
    AirportNotFound string string  \<comment> \<open>\<open>Error(`Airport not found: ${from} or ${to}`)\<close>\<close>
  | RangeError                     \<comment> \<open>\<open>toISOString\<close> of an invalid date\<close>
  | TypeError                      \<comment> \<open>property read on \<open>null\<close>\<close>

section \<open>flightPathService.ts\<close>

type_synonym coords = "real \<times> real"

text \<open>
  The airport table, latitude first; \<open>AIRPORTS[code]\<close> is \<open>map_of AIRPORTS code\<close>. The
  names that the object inherits from \<open>Object.prototype\<close> (\<open>constructor\<close>, \<open>toString\<close>, ...)
  are read by the code as values that are no entries; they all have a lower-case letter,
  so \<open>calculateFlightPath\<close>, which upper-cases the codes, never reads one. For the
  functions that index the table with the code as given they are modelled as missing.
\<close>

definition AIRPORTS :: "(string \<times> coords) list" where
  "AIRPORTS =
    [(''DEL'', (28.5562, 77.1000)),
     (''JAI'', (26.8282, 75.8056)),
     (''BLR'', (12.9716, 77.5946)),
     (''BOM'', (19.0896, 72.8656)),
     (''BHO'', (23.2875, 77.3374)),
     (''LKO'', (26.7606, 80.8893)),
     (''JFK'', (40.6413, -73.7781)),
     (''LHR'', (51.4700, -0.4543)),
     (''NRT'', (35.7720, 140.3929)),
     (''LAX'', (33.9425, -118.4081)),
     (''DXB'', (25.2532, 55.3657)),
     (''SIN'', (1.3644, 103.9915)),
     (''SYD'', (-33.9399, 151.1753)),
     (''CDG'', (49.0097, 2.5479)),
     (''FRA'', (50.0379, 8.5622)),
     (''HKG'', (22.3080, 113.9185)),
     (''ICN'', (37.4602, 126.4407)),
     (''BKK'', (13.6900, 100.7501)),
     (''DOH'', (25.2731, 51.6080)),
     (''IST'', (41.2753, 28.7519)),
     (''MAD'', (40.4839, -3.5680))]"

text \<open>\<open>String.prototype.toUpperCase\<close> on the ASCII letters.\<close>

definition toUpperCase :: "string \<Rightarrow> string" where
  "toUpperCase s =
     map (\<lambda>c. let n = (of_char c :: nat) in if 97 \<le> n \<and> n \<le> 122 then char_of (n - 32) else c) s"

text \<open>
  A point of a path with its time. \<open>Waypoint\<close> carries the ISO string of a valid
  instant, modelled by that instant's time value; the sampling points of the enhanced
  analysis carry a \<open>Date\<close>, which may be invalid.
\<close>

type_synonym Date = "int option"

record 't Point =
  lat :: number
  lon :: number
  time :: 't

type_synonym Waypoint = "int Point"

text \<open>
  The central angle \<open>d = 2 asin (sqrt h)\<close> lies in \<open>[0, \<pi>]\<close>. The doubles reach at
  most the double nearest to \<open>\<pi>\<close>, which is below \<open>\<pi>\<close> and whose sine is
  \<open>1.2246467991473532e-16\<close>: \<open>Math.sin\<close> of the central angle is zero for \<open>d = 0\<close>
  only, whereas \<open>sin \<pi> = 0\<close> in exact arithmetic. The sines of the central angle and of
  its multiples are therefore \<open>sinAngle\<close>, so that the weights of an antipodal pair are
  quotients by that double and not by zero. Every other rounding of the doubles is left out.
\<close>

definition sinAngle :: "real \<Rightarrow> real" where
  "sinAngle t = (if t = pi then 12246467991473532 / 10 ^ 32 else sin t)"

text \<open>
  \<open>calculateGreatCircle\<close> (lines 36-58); there is no guard. \<open>Math.sqrt\<close> of a negative
  number and \<open>Math.asin\<close> beyond 1 are \<open>NaN\<close>. When \<open>d = 0\<close> both weights are
  \<open>0/0 = NaN\<close>, and so are both coordinates. For an exactly antipodal pair (\<open>d = \<pi>\<close>)
  the weights at the fractions 0 and 1 are 1 and 0; strictly between, the blend of the two
  opposite unit vectors is what the roundings of the doubles leave of it, which is not
  modelled (the exact blend is the zero vector).
\<close>

definition calculateGreatCircle :: "coords \<Rightarrow> coords \<Rightarrow> real \<Rightarrow> number \<times> number" where
  "calculateGreatCircle from to fraction =
     (let lat1 = fst from * pi / 180;
          lon1 = snd from * pi / 180;
          lat2 = fst to * pi / 180;
          lon2 = snd to * pi / 180;
          h = (sin ((lat2 - lat1) / 2))\<^sup>2 + cos lat1 * cos lat2 * (sin ((lon2 - lon1) / 2))\<^sup>2
      in if h < 0 \<or> 1 < h then (NaN, NaN)
         else
           let d = 2 * arcsin (sqrt h) in
           if sinAngle d = 0 then (NaN, NaN)
           else
             let A = sinAngle ((1 - fraction) * d) / sinAngle d;
                 B = sinAngle (fraction * d) / sinAngle d;
                 x = A * cos lat1 * cos lon1 + B * cos lat2 * cos lon2;
                 y = A * cos lat1 * sin lon1 + B * cos lat2 * sin lon2;
                 z = A * sin lat1 + B * sin lat2;
                 lat = atan2 z (sqrt (x * x + y * y));
                 lon = atan2 y x
             in (Num (lat * 180 / pi), Num (lon * 180 / pi)))"

text \<open>
  The distance of lines 73-81, by the spherical law of cosines. The argument of
  \<open>Math.acos\<close> lies in \<open>[-1, 1]\<close> for all reals (lemma \<open>acos_argument_bounds\<close>).
\<close>

definition distanceKm :: "coords \<Rightarrow> coords \<Rightarrow> real" where
  "distanceKm fromCoords toCoords =
     (let lat1 = fst fromCoords * pi / 180;
          lon1 = snd fromCoords * pi / 180;
          lat2 = fst toCoords * pi / 180;
          lon2 = snd toCoords * pi / 180
      in 6371 * arccos (sin lat1 * sin lat2 + cos lat1 * cos lat2 * cos (lon2 - lon1)))"

text \<open>
  The loop of lines 88-101, from index \<open>i\<close> on, appending to \<open>waypoints\<close>.
  \<open>toISOString\<close> throws when the date is invalid. The time value is the truncation of
  the exact sum; where the sum of the doubles is rounded across an integer, the timestamp
  of the code is 1 ms away from it.
\<close>

function waypointLoop ::
  "coords \<Rightarrow> coords \<Rightarrow> int \<Rightarrow> real \<Rightarrow> int \<Rightarrow> int \<Rightarrow> Waypoint list \<Rightarrow> error + Waypoint list"
where
  "waypointLoop fromCoords toCoords departureTime distance numWaypoints i waypoints =
     (if i \<le> numWaypoints then
        let fraction = of_int i / of_int numWaypoints;
            (lat, lon) = calculateGreatCircle fromCoords toCoords fraction;
            flightDuration = distance / 800;
            timeAtWaypoint = newDate (of_int departureTime + (fraction * flightDuration * 60 * 60 * 1000))
        in case timeAtWaypoint of
             None \<Rightarrow> Inl RangeError
           | Some t \<Rightarrow>
               waypointLoop fromCoords toCoords departureTime distance numWaypoints (i + 1)
                 (waypoints @ [\<lparr>lat = lat, lon = lon, time = t\<rparr>])
      else Inr waypoints)"
  by pat_completeness auto
termination
  by (relation "measure (\<lambda>(f, t, dep, dist, n, i, ws). nat (n + 1 - i))") auto

definition calculateFlightPath :: "string \<Rightarrow> string \<Rightarrow> int \<Rightarrow> error + Waypoint list" where
  "calculateFlightPath fromAirport toAirport departureTime =
     (case (map_of AIRPORTS (toUpperCase fromAirport), map_of AIRPORTS (toUpperCase toAirport)) of
        (Some fromCoords, Some toCoords) \<Rightarrow>
          let distance = distanceKm fromCoords toCoords;
              numWaypoints = max 5 \<lfloor>distance / 50\<rfloor>
          in waypointLoop fromCoords toCoords departureTime distance numWaypoints 0 []
      | _ \<Rightarrow> Inl (AirportNotFound fromAirport toAirport))"

section \<open>sunPositionService.ts\<close>

text \<open>
  \<open>SunCalc.getPosition(date, lat, lon)\<close> is an external library: it is a parameter,
  returning the pair (azimuth, altitude) in radians. Its azimuth is measured from the
  South, positive towards the West.
\<close>

type_synonym sunCalc = "Date \<Rightarrow> number \<Rightarrow> number \<Rightarrow> number \<times> number"

record SunPosition = "int Point" +
  azimuth :: number
  elevation :: number

definition calculateSunPositions :: "sunCalc \<Rightarrow> Waypoint list \<Rightarrow> int \<Rightarrow> SunPosition list" where
  "calculateSunPositions getPosition waypoints departureTime =
     map (\<lambda>waypoint.
            let timeAtWaypoint = Some (time waypoint);
                sunPosition = getPosition timeAtWaypoint (lat waypoint) (lon waypoint);
                azimuthDegrees = nmul (fst sunPosition) (Num (180 / pi));
                elevationDegrees = nmul (snd sunPosition) (Num (180 / pi))
            in \<lparr>lat = lat waypoint, lon = lon waypoint, time = time waypoint,
                azimuth = azimuthDegrees, elevation = elevationDegrees\<rparr>)
         waypoints"

section \<open>seatRecommendationService.ts\<close>

fun calculateBearing :: "number \<Rightarrow> number \<Rightarrow> number \<Rightarrow> number \<Rightarrow> number" where
  "calculateBearing (Num lat1) (Num lon1) (Num lat2) (Num lon2) =
     (let dLon = (lon2 - lon1) * pi / 180;
          lat1Rad = lat1 * pi / 180;
          lat2Rad = lat2 * pi / 180;
          y = sin dLon * cos lat2Rad;
          x = cos lat1Rad * sin lat2Rad - sin lat1Rad * cos lat2Rad * cos dLon;
          bearing = atan2 y x * 180 / pi;
          bearing = jsmod (bearing + 360) 360
      in Num bearing)"
| "calculateBearing _ _ _ _ = NaN"

text \<open>Division of a number by the length of a non-empty array.\<close>

fun ndiv :: "number \<Rightarrow> nat \<Rightarrow> number" where
  "ndiv (Num x) n = Num (x / real n)"
| "ndiv NaN n = NaN"

definition getSeatRecommendation :: "SunPosition list \<Rightarrow> Waypoint list \<Rightarrow> string" where
  "getSeatRecommendation sunPositions flightPath =
     (let visibleSunPositions =
            filter (\<lambda>pos. ngt (elevation pos) 0 \<and> nlt (elevation pos) 80) sunPositions
      in if length visibleSunPositions = 0 then
           ''No optimal window seat - sun will not be visible during flight''
         else if length flightPath < 2 then ''Unable to determine flight direction''
         else
           let startPoint = flightPath ! 0;
               endPoint = flightPath ! (length flightPath - 1);
               flightBearing =
                 calculateBearing (lat startPoint) (lon startPoint) (lat endPoint) (lon endPoint);
               avgAzimuth =
                 ndiv (foldl (\<lambda>sum pos. nadd sum (azimuth pos)) (Num 0) visibleSunPositions)
                   (length visibleSunPositions);
               normalizedSunAzimuth = nmod (nadd (nmod avgAzimuth 360) (Num 360)) 360;
               relativeSunPosition = nsub normalizedSunAzimuth flightBearing;
               relativeSunPosition =
                 (if nlt relativeSunPosition 0 then nadd relativeSunPosition (Num 360)
                  else relativeSunPosition);
               relativeSunPosition =
                 (if ngt relativeSunPosition 360 then nsub relativeSunPosition (Num 360)
                  else relativeSunPosition)
           in if nge relativeSunPosition 0 \<and> nle relativeSunPosition 180 then ''left''
              else ''right'')"

section \<open>enhancedSunAnalysisService.ts: the elevation classifier\<close>

datatype Condition = NIGHT | TWILIGHT | GOLDEN_HOUR | DAYLIGHT

definition classifySunCondition :: "number \<Rightarrow> Condition" where
  "classifySunCondition elev =
     (if nlt elev 0 then NIGHT
      else if nlt elev 6 then TWILIGHT
      else if nlt elev 10 then GOLDEN_HOUR
      else DAYLIGHT)"

text \<open>
  The sampling points of \<open>generateFlightSamplingPoints\<close>, the timeline entries
  (\<open>SunCondition\<close>) and the events (\<open>SunEvent\<close>).
\<close>

record SamplingPoint = "Date Point" +
  progressPercent :: number

record TimedPoint = SamplingPoint +
  timeString :: string

record SunCondition = TimedPoint +
  sunElevation :: number
  sunAzimuth :: number
  condition :: Condition

record SunEvent = TimedPoint +
  location :: string

text \<open>
  \<open>interpolateGreatCircle\<close> (lines 124-153): the fraction is guarded first; a \<open>NaN\<close>
  fraction passes both guards and makes every later value \<open>NaN\<close>. The division by
  \<open>sin d\<close> is as in \<open>calculateGreatCircle\<close>.
\<close>

fun interpolateGreatCircle :: "coords \<Rightarrow> coords \<Rightarrow> number \<Rightarrow> number \<times> number" where
  "interpolateGreatCircle from to NaN = (NaN, NaN)"
| "interpolateGreatCircle from to (Num fraction) =
     (if fraction \<le> 0 then (Num (fst from), Num (snd from))
      else if fraction \<ge> 1 then (Num (fst to), Num (snd to))
      else
        let lat1 = fst from * pi / 180;
            lon1 = snd from * pi / 180;
            lat2 = fst to * pi / 180;
            lon2 = snd to * pi / 180;
            h = (sin ((lat1 - lat2) / 2))\<^sup>2 + cos lat1 * cos lat2 * (sin ((lon1 - lon2) / 2))\<^sup>2
        in if h < 0 \<or> 1 < h then (NaN, NaN)
           else
             let d = 2 * arcsin (sqrt h) in
             if sinAngle d = 0 then (NaN, NaN)
             else
               let a = sinAngle ((1 - fraction) * d) / sinAngle d;
                   b = sinAngle (fraction * d) / sinAngle d;
                   x = a * cos lat1 * cos lon1 + b * cos lat2 * cos lon2;
                   y = a * cos lat1 * sin lon1 + b * cos lat2 * sin lon2;
                   z = a * sin lat1 + b * sin lat2;
                   lat = atan2 z (sqrt (x * x + y * y));
                   lon = atan2 y x
               in (Num (lat * 180 / pi), Num (lon * 180 / pi)))"

text \<open>
  The loop of \<open>generateFlightSamplingPoints\<close> (lines 102-115); \<open>minutes\<close> runs over
  0, 15, 30, ... With \<open>totalMinutes = 0\<close> the one fraction is \<open>0/0\<close>.
\<close>

function samplingLoop ::
  "coords \<Rightarrow> coords \<Rightarrow> Date \<Rightarrow> real \<Rightarrow> nat \<Rightarrow> SamplingPoint list \<Rightarrow> SamplingPoint list"
where
  "samplingLoop fromCoords toCoords startTime totalMinutes minutes samplingPoints =
     (if real minutes \<le> totalMinutes then
        let fraction = (if totalMinutes = 0 then NaN else Num (real minutes / totalMinutes));
            currentTime =
              (case startTime of None \<Rightarrow> None
               | Some t \<Rightarrow> newDate (of_int t + (real minutes * 60 * 1000)));
            position = interpolateGreatCircle fromCoords toCoords fraction
        in samplingLoop fromCoords toCoords startTime totalMinutes (minutes + 15)
             (samplingPoints @
              [\<lparr>lat = fst position, lon = snd position, time = currentTime,
                progressPercent = nmul fraction (Num 100)\<rparr>])
      else samplingPoints)"
  by pat_completeness auto
termination
  by (relation "measure (\<lambda>(f, t, s, total, minutes, ps). nat (\<lfloor>total\<rfloor> + 1 - int minutes))")
     (auto simp: le_floor_iff)

definition generateFlightSamplingPoints ::
  "coords \<Rightarrow> coords \<Rightarrow> Date \<Rightarrow> real \<Rightarrow> SamplingPoint list"
where
  "generateFlightSamplingPoints fromCoords toCoords startTime duration =
     (let totalMinutes = duration * 60
      in samplingLoop fromCoords toCoords startTime totalMinutes 0 [])"

text \<open>
  The functions of the platform that the analysis calls are parameters: SunCalc, the
  locale-dependent \<open>toLocaleTimeString\<close>, the template
  \<open>`${lat.toFixed(2)}\<degree>, ${lon.toFixed(2)}\<degree>`\<close>, the parser of \<open>new Date(string)\<close>,
  \<open>toISOString\<close> on a valid date and \<open>parseFloat\<close> (an infinite result is not
  modelled).
\<close>

record Env =
  getPosition :: sunCalc
  toLocaleTimeString :: "Date \<Rightarrow> string"
  formatLocation :: "number \<Rightarrow> number \<Rightarrow> string"
  dateParse :: "string \<Rightarrow> Date"
  toISOString :: "int \<Rightarrow> string"
  parseFloat :: "string \<Rightarrow> number"

definition analyzeSunConditions :: "Env \<Rightarrow> SamplingPoint list \<Rightarrow> SunCondition list" where
  "analyzeSunConditions env samplingPoints =
     map (\<lambda>point.
            let sunPos = getPosition env (time point) (lat point) (lon point);
                elev = nmul (snd sunPos) (Num (180 / pi));
                azim = nmul (fst sunPos) (Num (180 / pi))
            in \<lparr>lat = lat point, lon = lon point, time = time point,
                progressPercent = progressPercent point,
                timeString = toLocaleTimeString env (time point),
                sunElevation = elev, sunAzimuth = azim,
                condition = classifySunCondition elev\<rparr>)
         samplingPoints"

text \<open>The object \<open>events\<close> that \<open>detectSunEvents\<close> builds, and the report.\<close>

record SunFlags =
  willSeeSunrise :: bool
  willSeeSunset :: bool
  willSeeNight :: bool
  willSeeGoldenHour :: bool
  sunrise :: "SunEvent option"
  sunset :: "SunEvent option"

record Events = SunFlags +
  nightMinutes :: number
  dayMinutes :: number
  goldenHourMinutes :: number

definition eventAt :: "Env \<Rightarrow> SunCondition \<Rightarrow> SunEvent" where
  "eventAt env current =
     \<lparr>lat = lat current, lon = lon current, time = time current,
      progressPercent = progressPercent current, timeString = timeString current,
      location = formatLocation env (lat current) (lon current)\<rparr>"

text \<open>The loop of \<open>detectSunEvents\<close> (lines 211-261), from index \<open>i\<close> on.\<close>

function detectLoop :: "Env \<Rightarrow> SunCondition list \<Rightarrow> nat \<Rightarrow> Events \<Rightarrow> Events" where
  "detectLoop env sunAnalysis i events =
     (if i < length sunAnalysis then
        let current = sunAnalysis ! i;
            intervalMinutes = Num 15;
            events =
              (if condition current = NIGHT then
                 events\<lparr>willSeeNight := True,
                        nightMinutes := nadd (nightMinutes events) intervalMinutes\<rparr>
               else if condition current = DAYLIGHT then
                 events\<lparr>dayMinutes := nadd (dayMinutes events) intervalMinutes\<rparr>
               else if condition current = GOLDEN_HOUR then
                 events\<lparr>willSeeGoldenHour := True,
                        goldenHourMinutes := nadd (goldenHourMinutes events) intervalMinutes\<rparr>
               else if condition current = TWILIGHT then
                 events\<lparr>willSeeNight := True,
                        nightMinutes := nadd (nightMinutes events) intervalMinutes\<rparr>
               else events);
            events =
              (if i > 0 then
                 let prev = sunAnalysis ! (i - 1);
                     events =
                       (if nle (sunElevation prev) 0 \<and> ngt (sunElevation current) 0 then
                          events\<lparr>sunrise := Some (eventAt env current), willSeeSunrise := True\<rparr>
                        else events);
                     events =
                       (if ngt (sunElevation prev) 0 \<and> nle (sunElevation current) 0 then
                          events\<lparr>sunset := Some (eventAt env current), willSeeSunset := True\<rparr>
                        else events)
                 in events
               else events)
        in detectLoop env sunAnalysis (i + 1) events
      else events)"
  by pat_completeness auto
termination
  by (relation "measure (\<lambda>(env, sunAnalysis, i, events). length sunAnalysis - i)") auto

definition detectSunEvents :: "Env \<Rightarrow> SunCondition list \<Rightarrow> Events" where
  "detectSunEvents env sunAnalysis =
     detectLoop env sunAnalysis 0
       \<lparr>willSeeSunrise = False, willSeeSunset = False, willSeeNight = False,
        willSeeGoldenHour = False, sunrise = None, sunset = None,
        nightMinutes = Num 0, dayMinutes = Num 0, goldenHourMinutes = Num 0\<rparr>"

datatype Side = Left | Right | Either

text \<open>
  \<open>determineSeatSideForSunrise\<close> and \<open>determineSeatSideForSunset\<close> (lines 365-420)
  read the table without upper-casing the codes; reading \<open>toCoords[1]\<close> of a code that
  is not in the table throws a \<open>TypeError\<close>.
\<close>

definition determineSeatSideForSunrise :: "string \<Rightarrow> string \<Rightarrow> error + Side" where
  "determineSeatSideForSunrise fromAirport toAirport =
     (case (map_of AIRPORTS fromAirport, map_of AIRPORTS toAirport) of
        (Some fromCoords, Some toCoords) \<Rightarrow>
          let dLon = snd toCoords - snd fromCoords;
              lat1 = fst fromCoords * pi / 180;
              lat2 = fst toCoords * pi / 180;
              dLonRad = dLon * pi / 180;
              y = sin dLonRad * cos lat2;
              x = cos lat1 * sin lat2 - sin lat1 * cos lat2 * cos dLonRad;
              bearing = atan2 y x * 180 / pi;
              bearing = jsmod (bearing + 360) 360
          in Inr (if bearing \<ge> 315 \<or> bearing < 45 then Right
                  else if bearing \<ge> 45 \<and> bearing < 135 then Right
                  else if bearing \<ge> 135 \<and> bearing < 225 then Left
                  else if bearing \<ge> 225 \<and> bearing < 315 then Left
                  else Either)
      | _ \<Rightarrow> Inl TypeError)"

definition determineSeatSideForSunset :: "string \<Rightarrow> string \<Rightarrow> error + Side" where
  "determineSeatSideForSunset fromAirport toAirport =
     (case (map_of AIRPORTS fromAirport, map_of AIRPORTS toAirport) of
        (Some fromCoords, Some toCoords) \<Rightarrow>
          let dLon = snd toCoords - snd fromCoords;
              lat1 = fst fromCoords * pi / 180;
              lat2 = fst toCoords * pi / 180;
              dLonRad = dLon * pi / 180;
              y = sin dLonRad * cos lat2;
              x = cos lat1 * sin lat2 - sin lat1 * cos lat2 * cos dLonRad;
              bearing = atan2 y x * 180 / pi;
              bearing = jsmod (bearing + 360) 360
          in Inr (if bearing \<ge> 315 \<or> bearing < 45 then Left
                  else if bearing \<ge> 45 \<and> bearing < 135 then Left
                  else if bearing \<ge> 135 \<and> bearing < 225 then Right
                  else if bearing \<ge> 225 \<and> bearing < 315 then Right
                  else Either)
      | _ \<Rightarrow> Inl TypeError)"

text \<open>
  The report. Each constructor of \<open>SummaryLine\<close> and \<open>RecommendationLine\<close> stands for one
  message template of \<open>generateFlightSunReport\<close>, with the values it interpolates.
\<close>

datatype SummaryLine =
    BothSunriseAndSunset
  | SunriseAt string
  | SunsetAt string
  | AlsoNightHours number
  | WillSeeSunrise string
  | WillSeeSunset string
  | NightHours number
  | GoldenHours number
  | BrightDaylight
  | RequiresDuration

datatype RecommendationLine =
    RareTreat
  | ChooseSunriseSide string
  | ChooseSunsetSide string
  | NightPhotography
  | ScenicViewing
  | BringCamera
  | EarlierCheckIn

record FlightSunAnalysis = SunFlags +
  summary :: "SummaryLine list"
  recommendations :: "RecommendationLine list"
  seatSuggestion :: Side
  timeline :: "SunCondition list"
  nightDuration :: "number option"
  dayDuration :: "number option"

text \<open>\<open>Math.round(minutes / 60 * 10) / 10\<close>.\<close>

fun hoursRounded :: "number \<Rightarrow> number" where
  "hoursRounded (Num m) = Num (of_int \<lfloor>m / 60 * 10 + 1 / 2\<rfloor> / 10)"
| "hoursRounded NaN = NaN"

text \<open>
  The night estimate of lines 308-312: \<open>Math.max(0, (sunrise - sunset) / (1000 * 60))\<close>,
  \<open>NaN\<close> when one of the dates is invalid.
\<close>

fun nightEstimate :: "Date \<Rightarrow> Date \<Rightarrow> number" where
  "nightEstimate (Some sunriseTime) (Some sunsetTime) =
     Num (max 0 (of_int (sunriseTime - sunsetTime) / (1000 * 60)))"
| "nightEstimate _ _ = NaN"

text \<open>
  Lines 296-333 of \<open>generateFlightSunReport\<close>: the chain on the two events. It writes
  into \<open>report\<close> and, in its first branch, into \<open>events\<close>; both are returned.
\<close>

definition reportEvents ::
  "FlightSunAnalysis \<Rightarrow> Events \<Rightarrow> string \<Rightarrow> string \<Rightarrow> error + FlightSunAnalysis \<times> Events"
where
  "reportEvents report events fromAirport toAirport =
     (if willSeeSunrise events \<and> willSeeSunset events then
        (case (sunrise events, sunset events) of
           (Some sr, Some ss) \<Rightarrow>
             let report =
                   report\<lparr>summary := summary report @
                             [BothSunriseAndSunset, SunriseAt (timeString sr), SunsetAt (timeString ss)],
                          seatSuggestion := Either,
                          recommendations := recommendations report @ [RareTreat]\<rparr>;
                 events =
                   (if \<not> willSeeNight events then
                      events\<lparr>willSeeNight := True,
                             nightMinutes :=
                               (if sunset events \<noteq> None \<and> sunrise events \<noteq> None
                                then nightEstimate (time sr) (time ss)
                                else Num (of_int \<lfloor>6 * 60 * 0.25 + 1 / 2 :: real\<rfloor>))\<rparr>
                    else events);
                 report =
                   (if willSeeNight events then
                      report\<lparr>summary := summary report @
                                [AlsoNightHours (hoursRounded (nightMinutes events))]\<rparr>
                    else report)
             in Inr (report, events)
         | _ \<Rightarrow> Inl TypeError)
      else if willSeeSunrise events then
        (case sunrise events of
           None \<Rightarrow> Inl TypeError
         | Some sr \<Rightarrow>
             (case determineSeatSideForSunrise fromAirport toAirport of
                Inl e \<Rightarrow> Inl e
              | Inr side \<Rightarrow>
                  Inr (report\<lparr>summary := summary report @ [WillSeeSunrise (timeString sr)],
                              seatSuggestion := side,
                              recommendations := recommendations report @
                                [ChooseSunriseSide
                                   (if side = Right then ''RIGHT (E, F)'' else ''LEFT (A, B)'')]\<rparr>,
                       events)))
      else if willSeeSunset events then
        (case sunset events of
           None \<Rightarrow> Inl TypeError
         | Some ss \<Rightarrow>
             (case determineSeatSideForSunset fromAirport toAirport of
                Inl e \<Rightarrow> Inl e
              | Inr side \<Rightarrow>
                  Inr (report\<lparr>summary := summary report @ [WillSeeSunset (timeString ss)],
                              seatSuggestion := side,
                              recommendations := recommendations report @
                                [ChooseSunsetSide
                                   (if side = Right then ''RIGHT (E, F)'' else ''LEFT (A, B)'')]\<rparr>,
                       events)))
      else Inr (report, events))"

text \<open>Lines 335-355: the lines that depend on the flags of \<open>events\<close> alone.\<close>

definition reportFlags :: "FlightSunAnalysis \<Rightarrow> Events \<Rightarrow> FlightSunAnalysis" where
  "reportFlags report events =
     (let report =
            (if willSeeNight events then
               report\<lparr>summary := summary report @ [NightHours (hoursRounded (nightMinutes events))],
                      recommendations := recommendations report @ [NightPhotography]\<rparr>
             else report);
          report =
            (if willSeeGoldenHour events then
               report\<lparr>summary := summary report @
                         [GoldenHours (hoursRounded (goldenHourMinutes events))]\<rparr>
             else report);
          report =
            (if \<not> willSeeSunrise events \<and> \<not> willSeeSunset events \<and> \<not> willSeeNight events then
               report\<lparr>summary := summary report @ [BrightDaylight],
                      recommendations := recommendations report @ [ScenicViewing]\<rparr>
             else report);
          report =
            (if willSeeSunrise events \<or> willSeeSunset events then
               report\<lparr>recommendations := recommendations report @ [BringCamera, EarlierCheckIn]\<rparr>
             else report)
      in report)"

text \<open>
  \<open>generateFlightSunReport\<close> (lines 269-360). The parameter \<open>events\<close> is an object the
  function also writes to: the result is the report together with \<open>events\<close> as the
  function leaves it.
\<close>

definition generateFlightSunReport ::
  "Events \<Rightarrow> SunCondition list \<Rightarrow> string \<Rightarrow> string \<Rightarrow> error + FlightSunAnalysis \<times> Events"
where
  "generateFlightSunReport events sunAnalysis fromAirport toAirport =
     (let report =
            \<lparr>willSeeSunrise = willSeeSunrise events,
             willSeeSunset = willSeeSunset events,
             willSeeNight = willSeeNight events,
             willSeeGoldenHour = willSeeGoldenHour events,
             sunrise = sunrise events,
             sunset = sunset events,
             summary = [],
             recommendations = [],
             seatSuggestion = Either,
             timeline = sunAnalysis,
             nightDuration = Some (nightMinutes events),
             dayDuration = Some (dayMinutes events)\<rparr>;
          report = report\<lparr>willSeeNight := willSeeNight events,
                          nightDuration := Some (nightMinutes events)\<rparr>
      in case reportEvents report events fromAirport toAirport of
           Inl e \<Rightarrow> Inl e
         | Inr (report, events) \<Rightarrow> Inr (reportFlags report events, events))"

text \<open>
  \<open>analyzeFlightSunConditions\<close> (lines 43-87). The two \<open>toISOString\<close> calls of the log
  lines throw on an invalid start or end time.
\<close>

definition analyzeFlightSunConditions ::
  "Env \<Rightarrow> string \<Rightarrow> string \<Rightarrow> string \<Rightarrow> string \<Rightarrow> real \<Rightarrow> error + FlightSunAnalysis"
where
  "analyzeFlightSunConditions env fromAirport toAirport departureDate departureTime flightDuration =
     (case (map_of AIRPORTS fromAirport, map_of AIRPORTS toAirport) of
        (Some fromCoords, Some toCoords) \<Rightarrow>
          let startTime = dateParse env (departureDate @ ''T'' @ departureTime @ '':00Z'');
              endTime =
                (case startTime of None \<Rightarrow> None
                 | Some t \<Rightarrow> newDate (of_int t + (flightDuration * 60 * 60 * 1000)))
          in if startTime = None \<or> endTime = None then Inl RangeError
             else
               let samplingPoints =
                     generateFlightSamplingPoints fromCoords toCoords startTime flightDuration;
                   sunAnalysis = analyzeSunConditions env samplingPoints;
                   events = detectSunEvents env sunAnalysis
               in map_sum id fst (generateFlightSunReport events sunAnalysis fromAirport toAirport)
      | _ \<Rightarrow> Inl (AirportNotFound fromAirport toAirport))"

section \<open>routes/routeHandler.ts\<close>

record Query =
  q_from :: "string option"
  q_to :: "string option"
  q_depart :: "string option"
  q_duration :: "string option"

datatype Body =
    ErrorBody string
  | ErrorWithMessage string string
  | RouteBody (path: "Waypoint list") (sunPositions: "SunPosition list")
      (recommendation: string) (enhancedAnalysis: FlightSunAnalysis)

record Response =
  status :: nat
  body :: Body

definition errorMessage :: "error \<Rightarrow> string" where
  "errorMessage e =
     (case e of
        AirportNotFound f t \<Rightarrow> ''Airport not found: '' @ f @ '' or '' @ t
      | RangeError \<Rightarrow> ''Invalid time value''
      | TypeError \<Rightarrow> ''TypeError'')"

text \<open>\<open>s.split(c)\<close> for a one-character separator.\<close>

fun split :: "char \<Rightarrow> string \<Rightarrow> string list" where
  "split c [] = [[]]"
| "split c (x # xs) =
     (if x = c then [] # split c xs
      else (case split c xs of w # ws \<Rightarrow> (x # w) # ws | [] \<Rightarrow> [[x]]))"

text \<open>
  The enhanced analysis of lines 39-59, inside its own \<open>try\<close>: any error leaves
  \<open>enhancedAnalysis\<close> \<open>null\<close>.
\<close>

definition enhancedFor :: "Env \<Rightarrow> string \<Rightarrow> string \<Rightarrow> int \<Rightarrow> number \<Rightarrow> FlightSunAnalysis option" where
  "enhancedFor env fromAirport toAirport departureTime flightDuration =
     (case flightDuration of
        NaN \<Rightarrow> None
      | Num d \<Rightarrow>
          if d = 0 then None
          else
            let parts = split CHR ''T'' (toISOString env departureTime);
                departureDate = parts ! 0
            in if length parts < 2 then None
               else
                 let departureTimeStr = take 5 (parts ! 1)
                 in (case analyzeFlightSunConditions env fromAirport toAirport departureDate
                            departureTimeStr d of
                       Inl e \<Rightarrow> None
                     | Inr analysis \<Rightarrow> Some analysis))"

definition fallbackAnalysis :: FlightSunAnalysis where
  "fallbackAnalysis =
     \<lparr>willSeeSunrise = False, willSeeSunset = False, willSeeNight = False,
      willSeeGoldenHour = False, sunrise = None, sunset = None,
      summary = [RequiresDuration], recommendations = [], seatSuggestion = Either,
      timeline = [], nightDuration = None, dayDuration = None\<rparr>"

definition routeHandler :: "Env \<Rightarrow> Query \<Rightarrow> Response" where
  "routeHandler env query =
     (case (q_from query, q_to query, q_depart query) of
        (Some fromAirport, Some toAirport, Some depart) \<Rightarrow>
          if fromAirport = [] \<or> toAirport = [] \<or> depart = [] then
            \<lparr>status = 400, body = ErrorBody ''Missing required parameters: from, to, depart''\<rparr>
          else
            let flightDuration =
                  (case q_duration query of
                     None \<Rightarrow> NaN
                   | Some duration \<Rightarrow> if duration = [] then NaN else parseFloat env duration)
            in (case dateParse env depart of
                  None \<Rightarrow>
                    \<lparr>status = 400,
                     body = ErrorBody
                       ''Invalid departure time format. Use ISO 8601 format (e.g., 2025-08-01T18:00)''\<rparr>
                | Some departureTime \<Rightarrow>
                    (case calculateFlightPath fromAirport toAirport departureTime of
                       Inl e \<Rightarrow>
                         \<lparr>status = 500,
                          body = ErrorWithMessage ''Internal server error'' (errorMessage e)\<rparr>
                     | Inr flightPath \<Rightarrow>
                         let sunPositions =
                               calculateSunPositions (getPosition env) flightPath departureTime;
                             recommendation = getSeatRecommendation sunPositions flightPath;
                             enhancedAnalysis =
                               enhancedFor env fromAirport toAirport departureTime flightDuration
                         in \<lparr>status = 200,
                             body = RouteBody flightPath sunPositions recommendation
                               (case enhancedAnalysis of
                                  None \<Rightarrow> fallbackAnalysis
                                | Some analysis \<Rightarrow> analysis)\<rparr>))
      | _ \<Rightarrow> \<lparr>status = 400, body = ErrorBody ''Missing required parameters: from, to, depart''\<rparr>)"

section \<open>Notions of the specification\<close>

text \<open>The order in which the conditions follow one another as the elevation rises.\<close>

fun conditionRank :: "Condition \<Rightarrow> nat" where
  "conditionRank NIGHT = 0"
| "conditionRank TWILIGHT = 1"
| "conditionRank GOLDEN_HOUR = 2"
| "conditionRank DAYLIGHT = 3"







text \<open>
  The conversion of section 4.3: a South-referenced azimuth in degrees to the
  North-referenced map bearing, \<open>(azimuth + 180) % 360\<close>.
\<close>

fun northReferenced :: "number \<Rightarrow> number" where
  "northReferenced (Num az) = Num (jsmod (az + 180) 360)"
| "northReferenced NaN = NaN"

text \<open>\<open>normalize360\<close> of section 4.5.\<close>

definition normalize360 :: "real \<Rightarrow> real" where
  "normalize360 x = jsmod (jsmod x 360 + 360) 360"

text \<open>
  The decision rule of section 4.5 applied to a fixed sun bearing, as section 4.5 words
  \<open>recommendForEvent\<close>: 90 degrees for a sunrise, 270 degrees for a sunset; a relative
  position in \<open>[0, 180]\<close> recommends the left side, one in \<open>(180, 360)\<close> the right side.
\<close>

definition spec_recommendForEvent :: "coords \<Rightarrow> coords \<Rightarrow> bool \<Rightarrow> Side" where
  "spec_recommendForEvent from to isEventSunrise =
     (case calculateBearing (Num (fst from)) (Num (snd from)) (Num (fst to)) (Num (snd to)) of
        Num flightBearing \<Rightarrow>
          let sunBearing = (if isEventSunrise then 90 else 270);
              relativeSunPosition = normalize360 (sunBearing - flightBearing)
          in if 0 \<le> relativeSunPosition \<and> relativeSunPosition \<le> 180 then Left else Right
      | NaN \<Rightarrow> Either)"

text \<open>
  A synthetic timeline entry: the \<open>i\<close>-th sample of a 15-minute cadence with the given
  elevation, classified by the classifier.
\<close>

definition syntheticSample :: "nat \<Rightarrow> real \<Rightarrow> SunCondition" where
  "syntheticSample i e =
     \<lparr>lat = Num 0, lon = Num 0, time = Some (int i * 900000),
      progressPercent = Num (real i * 20), timeString = [],
      sunElevation = Num e, sunAzimuth = Num 0,
      condition = classifySunCondition (Num e)\<rparr>"

text \<open>An upward crossing of the horizon at index \<open>i\<close> of a timeline, and a downward one.\<close>

definition crossesUp :: "SunCondition list \<Rightarrow> nat \<Rightarrow> bool" where
  "crossesUp xs i =
     (0 < i \<and> i < length xs \<and> nle (sunElevation (xs ! (i - 1))) 0 \<and> ngt (sunElevation (xs ! i)) 0)"

definition crossesDown :: "SunCondition list \<Rightarrow> nat \<Rightarrow> bool" where
  "crossesDown xs i =
     (0 < i \<and> i < length xs \<and> ngt (sunElevation (xs ! (i - 1))) 0 \<and> nle (sunElevation (xs ! i)) 0)"

text \<open>
  A platform for a half-hour flight that departs at the epoch: SunCalc puts the sun 0.1
  radians above the horizon at the first and the last sample and 0.1 radians below at the
  middle one (15 minutes, 900000 ms).
\<close>

definition sampleEnv :: Env where
  "sampleEnv =
     \<lparr>getPosition = (\<lambda>t la lo. (Num 0, Num (if t = Some 900000 then - (1 / 10) else 1 / 10))),
      toLocaleTimeString = (\<lambda>t. []),
      formatLocation = (\<lambda>la lo. []),
      dateParse = (\<lambda>s. Some 0),
      toISOString = (\<lambda>t. []),
      parseFloat = (\<lambda>s. NaN)\<rparr>"

text \<open>
  The waypoint of index \<open>i\<close> on a path of \<open>n\<close> steps: the great-circle point at the
  progress fraction \<open>i / n\<close>, at the time reached after that fraction of the flight.
\<close>

definition waypointAt :: "coords \<Rightarrow> coords \<Rightarrow> int \<Rightarrow> real \<Rightarrow> int \<Rightarrow> int \<Rightarrow> Waypoint" where
  "waypointAt fromCoords toCoords departureTime distance n i =
     \<lparr>lat = fst (calculateGreatCircle fromCoords toCoords (of_int i / of_int n)),
      lon = snd (calculateGreatCircle fromCoords toCoords (of_int i / of_int n)),
      time = trunc (of_int departureTime + (of_int i / of_int n * (distance / 800) * 60 * 60 * 1000))\<rparr>"

declare waypointLoop.simps [simp del]
declare samplingLoop.simps [simp del]
declare detectLoop.simps [simp del]

section \<open>Auxiliary lemmas\<close>

subsection \<open>The remainder and the two-argument arctangent\<close>

lemma jsmod_id: "0 \<le> x \<Longrightarrow> x < m \<Longrightarrow> jsmod x m = x"
proof -
  assume a: "0 \<le> x" "x < m"
  then have m: "0 < m" by linarith
  have "0 \<le> x / m" "x / m < 1" using a m by simp_all
  then have "\<lfloor>x / m\<rfloor> = 0" by linarith
  then show ?thesis using \<open>0 \<le> x / m\<close> by (simp add: jsmod_def trunc_def)
qed

lemma jsmod_sub: "m \<le> x \<Longrightarrow> x < 2 * m \<Longrightarrow> 0 < m \<Longrightarrow> jsmod x m = x - m"
proof -
  assume a: "m \<le> x" "x < 2 * m" "0 < m"
  have "1 \<le> x / m" "x / m < 2" using a by (simp_all add: field_simps)
  then have "\<lfloor>x / m\<rfloor> = 1" by linarith
  then show ?thesis using \<open>1 \<le> x / m\<close> by (simp add: jsmod_def trunc_def)
qed

lemma atan2_bounds: "- pi < atan2 y x \<and> atan2 y x \<le> pi"
proof -
  have a: "- (pi / 2) < arctan (y / x)" "arctan (y / x) < pi / 2"
    by (rule arctan_lbound, rule arctan_ubound)
  have p: "0 < pi" by simp
  consider (pos) "0 < x" | (neg) "x < 0" | (zero) "x = 0" by linarith
  then show ?thesis
  proof cases
    case pos
    then show ?thesis using a p by (simp add: atan2_def)
  next
    case neg
    show ?thesis
    proof (cases "0 \<le> y")
      case True
      with neg have "y / x \<le> 0" by (simp add: divide_nonneg_neg)
      then have "arctan (y / x) \<le> 0" by (simp only: arctan_le_zero_iff)
      then show ?thesis using neg True a p by (simp add: atan2_def)
    next
      case False
      with neg have "0 < y / x" by (simp add: divide_neg_neg)
      then have "0 < arctan (y / x)" by (simp only: zero_less_arctan_iff)
      then show ?thesis using neg False a p by (simp add: atan2_def)
    qed
  next
    case zero
    have "atan2 y x = pi / 2 \<or> atan2 y x = - (pi / 2) \<or> atan2 y x = 0"
      using zero by (simp add: atan2_def)
    then show ?thesis using p by (elim disjE; intro conjI; linarith)
  qed
qed




subsection \<open>Degrees, radians and the central angle\<close>

lemma deg_rad_less: "a < b \<Longrightarrow> a * pi / 180 < b * pi / 180"
  by (simp add: field_simps)

lemma deg_rad_le: "a \<le> b \<Longrightarrow> a * pi / 180 \<le> b * pi / 180"
  by (simp add: field_simps)


lemma calculateGreatCircle_same: "calculateGreatCircle A A f = (NaN, NaN)"
  by (simp add: calculateGreatCircle_def sinAngle_def)

subsection \<open>Bearings\<close>

lemma normalize_bearing:
  assumes "- pi < t" "t \<le> pi"
  shows "jsmod (t * 180 / pi + 360) 360 = (if 0 \<le> t then t * 180 / pi else t * 180 / pi + 360)"
proof -
  have lo: "- 180 < t * 180 / pi" using assms(1) by (simp add: field_simps)
  have hi: "t * 180 / pi \<le> 180" using assms(2) by (simp add: field_simps)
  show ?thesis
  proof (cases "0 \<le> t")
    case True
    then have "0 \<le> t * 180 / pi" by simp
    then have "jsmod (t * 180 / pi + 360) 360 = t * 180 / pi + 360 - 360"
      using hi by (intro jsmod_sub) auto
    then show ?thesis using True by simp
  next
    case False
    then have "t * 180 / pi < 0" by (simp add: field_simps)
    then have "jsmod (t * 180 / pi + 360) 360 = t * 180 / pi + 360"
      using lo by (intro jsmod_id) auto
    then show ?thesis using False by simp
  qed
qed

lemma bearing_deg_bounds:
  "0 \<le> jsmod (atan2 y x * 180 / pi + 360) 360 \<and> jsmod (atan2 y x * 180 / pi + 360) 360 < 360"
proof -
  have b: "- pi < atan2 y x" "atan2 y x \<le> pi" using atan2_bounds [of y x] by simp_all
  have lo: "- 180 < atan2 y x * 180 / pi" using b(1) by (simp add: field_simps)
  show ?thesis
  proof (cases "0 \<le> atan2 y x")
    case True
    then have "jsmod (atan2 y x * 180 / pi + 360) 360 = atan2 y x * 180 / pi"
      by (simp add: normalize_bearing [OF b])
    moreover have "atan2 y x * 180 / pi \<le> 180" using b(2) by (simp add: field_simps)
    moreover have "0 \<le> atan2 y x * 180 / pi" using True by simp
    ultimately show ?thesis by simp
  next
    case False
    then have "jsmod (atan2 y x * 180 / pi + 360) 360 = atan2 y x * 180 / pi + 360"
      by (simp add: normalize_bearing [OF b])
    moreover have "atan2 y x * 180 / pi < 0" using False by (simp add: field_simps)
    ultimately show ?thesis using lo by simp
  qed
qed













subsection \<open>The seat side for an event\<close>

lemma jsmod_neg_id: "- m < x \<Longrightarrow> x \<le> 0 \<Longrightarrow> jsmod x m = x"
proof -
  assume a: "- m < x" "x \<le> 0"
  then have m: "0 < m" by linarith
  have "- 1 < x / m" "x / m \<le> 0" using a m by (simp_all add: field_simps)
  then have "\<lceil>x / m\<rceil> = 0" "\<lfloor>x / m\<rfloor> = 0 \<or> x / m < 0" by linarith+
  then show ?thesis by (auto simp: jsmod_def trunc_def)
qed

lemma normalize360_window:
  assumes "- 360 < x" "x < 360"
  shows "normalize360 x = (if 0 \<le> x then x else x + 360)"
proof (cases "0 \<le> x")
  case True
  then have "jsmod x 360 = x" using assms by (intro jsmod_id) auto
  moreover have "jsmod (x + 360) 360 = x + 360 - 360" using True assms by (intro jsmod_sub) auto
  ultimately show ?thesis using True by (simp add: normalize360_def)
next
  case False
  then have "jsmod x 360 = x" using assms by (intro jsmod_neg_id) auto
  moreover have "jsmod (x + 360) 360 = x + 360" using False assms by (intro jsmod_id) auto
  ultimately show ?thesis using False by (simp add: normalize360_def)
qed

lemma calculateBearing_range:
  "calculateBearing (Num lat1) (Num lon1) (Num lat2) (Num lon2) = Num b \<Longrightarrow> 0 \<le> b \<and> b < 360"
  using bearing_deg_bounds by (auto simp: Let_def)

lemma seat_side_sunrise_bearing:
  assumes "map_of AIRPORTS fromAirport = Some A" "map_of AIRPORTS toAirport = Some B"
    and "calculateBearing (Num (fst A)) (Num (snd A)) (Num (fst B)) (Num (snd B)) = Num b"
  shows "determineSeatSideForSunrise fromAirport toAirport =
           Inr (if 315 \<le> b \<or> b < 135 then Right else Left)"
proof -
  have r: "0 \<le> b" "b < 360" using calculateBearing_range [OF assms(3)] by simp_all
  show ?thesis using assms r by (auto simp: determineSeatSideForSunrise_def Let_def)
qed

lemma seat_side_sunset_bearing:
  assumes "map_of AIRPORTS fromAirport = Some A" "map_of AIRPORTS toAirport = Some B"
    and "calculateBearing (Num (fst A)) (Num (snd A)) (Num (fst B)) (Num (snd B)) = Num b"
  shows "determineSeatSideForSunset fromAirport toAirport =
           Inr (if 315 \<le> b \<or> b < 135 then Left else Right)"
proof -
  have r: "0 \<le> b" "b < 360" using calculateBearing_range [OF assms(3)] by simp_all
  show ?thesis using assms r by (auto simp: determineSeatSideForSunset_def Let_def)
qed

lemma spec_sunrise_bearing:
  assumes "calculateBearing (Num (fst A)) (Num (snd A)) (Num (fst B)) (Num (snd B)) = Num b"
  shows "spec_recommendForEvent A B True = (if b \<le> 90 \<or> 270 \<le> b then Left else Right)"
proof -
  have r: "0 \<le> b" "b < 360" using calculateBearing_range [OF assms] by simp_all
  then have "normalize360 (90 - b) = (if 0 \<le> 90 - b then 90 - b else 90 - b + 360)"
    by (intro normalize360_window) auto
  then show ?thesis using assms r by (auto simp: spec_recommendForEvent_def)
qed

lemma spec_sunset_bearing:
  assumes "calculateBearing (Num (fst A)) (Num (snd A)) (Num (fst B)) (Num (snd B)) = Num b"
  shows "spec_recommendForEvent A B False = (if 90 \<le> b \<and> b \<le> 270 then Left else Right)"
proof -
  have r: "0 \<le> b" "b < 360" using calculateBearing_range [OF assms] by simp_all
  then have "normalize360 (270 - b) = (if 0 \<le> 270 - b then 270 - b else 270 - b + 360)"
    by (intro normalize360_window) auto
  then show ?thesis using assms r by (auto simp: spec_recommendForEvent_def)
qed

lemma bearing_north_east:
  assumes la: "0 \<le> lat1" "lat1 < lat2" "lat2 < 90" and lo: "lon1 < lon2" "lon2 - lon1 < 180"
  shows "\<exists>b. calculateBearing (Num lat1) (Num lon1) (Num lat2) (Num lon2) = Num b \<and> 0 < b \<and> b < 90"
proof -
  define dL where "dL = (lon2 - lon1) * pi / 180"
  define a where "a = lat1 * pi / 180"
  define c where "c = lat2 * pi / 180"
  have dL: "0 < dL" "dL < pi"
    using deg_rad_less [of 0 "lon2 - lon1"] deg_rad_less [of "lon2 - lon1" 180] lo
    by (simp_all add: dL_def)
  have a: "0 \<le> a" "a < c" using deg_rad_le [of 0 lat1] deg_rad_less [of lat1 lat2] la
    by (simp_all add: a_def c_def)
  have c: "c < pi / 2" using deg_rad_less [of lat2 90] la by (simp add: c_def)
  define y where "y = sin dL * cos c"
  define x where "x = cos a * sin c - sin a * cos c * cos dL"
  have cc: "0 < cos c" using a c by (intro cos_gt_zero_pi) auto
  have sa: "0 \<le> sin a" using a c by (intro sin_ge_zero) auto
  have y: "0 < y" unfolding y_def using dL cc by (simp add: sin_gt_zero)
  have "sin a * cos c * cos dL \<le> sin a * cos c * 1"
    using sa cc by (intro mult_left_mono) auto
  then have "sin (c - a) \<le> x" unfolding x_def by (simp add: sin_diff algebra_simps)
  moreover have "0 < sin (c - a)" using a c by (intro sin_gt_zero) auto
  ultimately have x: "0 < x" by linarith
  have t: "atan2 y x = arctan (y / x)" using x by (simp add: atan2_def)
  have q: "0 < y / x" using x y by simp
  have t0: "0 < atan2 y x" unfolding t using q by (simp only: zero_less_arctan_iff)
  have t1: "atan2 y x < pi / 2" unfolding t by (rule arctan_ubound)
  have n: "jsmod (atan2 y x * 180 / pi + 360) 360 = atan2 y x * 180 / pi"
    using normalize_bearing [of "atan2 y x"] t0 t1 by simp
  have f: "calculateBearing (Num lat1) (Num lon1) (Num lat2) (Num lon2) =
           Num (jsmod (atan2 y x * 180 / pi + 360) 360)"
    by (simp only: calculateBearing.simps Let_def dL_def [symmetric] a_def [symmetric]
          c_def [symmetric] y_def [symmetric] x_def [symmetric])
  have "0 < atan2 y x * 180 / pi" using t0 by simp
  moreover have "atan2 y x * 180 / pi < 90" using t1 by (simp add: field_simps)
  ultimately show ?thesis unfolding f n by simp
qed

lemma airports_JAI_DEL:
  "map_of AIRPORTS ''JAI'' = Some (26.8282, 75.8056)" "map_of AIRPORTS ''DEL'' = Some (28.5562, 77.1)"
  by (simp_all add: AIRPORTS_def)

subsection \<open>The distance and the flight path\<close>

lemma acos_argument_bounds:
  fixes a b c :: real
  shows "- 1 \<le> sin a * sin b + cos a * cos b * cos c \<and> sin a * sin b + cos a * cos b * cos c \<le> 1"
proof -
  have p: "\<bar>x * y\<bar> \<le> (x\<^sup>2 + y\<^sup>2) / 2" for x y :: real
  proof -
    have "0 \<le> (\<bar>x\<bar> - \<bar>y\<bar>)\<^sup>2" by simp
    then have "2 * (\<bar>x\<bar> * \<bar>y\<bar>) \<le> x\<^sup>2 + y\<^sup>2" by (simp add: power2_diff)
    then show ?thesis by (simp add: abs_mult)
  qed
  have "\<bar>cos a * cos b * cos c\<bar> \<le> \<bar>cos a * cos b\<bar>"
    using abs_cos_le_one [of c] by (simp only: abs_mult) (metis abs_ge_zero mult.right_neutral mult_left_mono mult_nonneg_nonneg)
  then have "\<bar>sin a * sin b + cos a * cos b * cos c\<bar> \<le> \<bar>sin a * sin b\<bar> + \<bar>cos a * cos b\<bar>"
    by linarith
  also have "\<dots> \<le> ((sin a)\<^sup>2 + (sin b)\<^sup>2) / 2 + ((cos a)\<^sup>2 + (cos b)\<^sup>2) / 2"
    using p [of "sin a" "sin b"] p [of "cos a" "cos b"] by linarith
  also have "\<dots> = 1" by (simp add: cos_squared_eq field_simps)
  finally show ?thesis by linarith
qed

lemma distanceKm_bounds: "0 \<le> distanceKm A B \<and> distanceKm A B \<le> 6371 * pi"
proof -
  define c where "c = sin (fst A * pi / 180) * sin (fst B * pi / 180) +
    cos (fst A * pi / 180) * cos (fst B * pi / 180) * cos (snd B * pi / 180 - snd A * pi / 180)"
  have "- 1 \<le> c" "c \<le> 1" unfolding c_def using acos_argument_bounds by blast+
  then have "0 \<le> arccos c" "arccos c \<le> pi" by (simp_all add: arccos_lbound arccos_ubound)
  then show ?thesis by (simp add: distanceKm_def Let_def c_def [symmetric])
qed

lemma distanceKm_same: "distanceKm A A = 0"
proof -
  have "sin x * sin x + cos x * cos x = 1" for x :: real
    using sin_cos_squared_add [of x] by (simp add: power2_eq_square)
  then show ?thesis by (simp add: distanceKm_def Let_def)
qed

lemma distanceKm_latitude_gap:
  assumes "\<bar>fst A\<bar> \<le> 90" "\<bar>fst B\<bar> \<le> 90"
  shows "6371 * (\<bar>fst A - fst B\<bar> * pi / 180) \<le> distanceKm A B"
proof -
  define a where "a = fst A * pi / 180"
  define b where "b = fst B * pi / 180"
  define dl where "dl = snd B * pi / 180 - snd A * pi / 180"
  define c where "c = sin a * sin b + cos a * cos b * cos dl"
  have ra: "- (pi / 2) \<le> a" "a \<le> pi / 2"
    using deg_rad_le [of "- 90" "fst A"] deg_rad_le [of "fst A" 90] assms by (simp_all add: a_def)
  have rb: "- (pi / 2) \<le> b" "b \<le> pi / 2"
    using deg_rad_le [of "- 90" "fst B"] deg_rad_le [of "fst B" 90] assms by (simp_all add: b_def)
  have ca: "0 \<le> cos a" using ra by (rule cos_ge_zero)
  have cb: "0 \<le> cos b" using rb by (rule cos_ge_zero)
  have "cos a * cos b * cos dl \<le> cos a * cos b * 1"
    using ca cb by (intro mult_left_mono) auto
  then have le: "c \<le> cos (a - b)" by (simp add: c_def cos_diff)
  have cl: "- 1 \<le> c" unfolding c_def using acos_argument_bounds by blast
  have "arccos (cos (a - b)) \<le> arccos c"
    using cl le by (intro arccos_le_arccos) auto
  moreover have "arccos (cos (a - b)) = \<bar>a - b\<bar>"
    using ra rb by (intro arccos_cos_eq_abs) (simp add: abs_le_iff)
  moreover have "\<bar>a - b\<bar> = \<bar>fst A - fst B\<bar> * pi / 180"
    by (simp add: a_def b_def abs_mult diff_divide_distrib [symmetric] left_diff_distrib [symmetric])
  ultimately have "\<bar>fst A - fst B\<bar> * pi / 180 \<le> arccos c" by (simp only:)
  then have "6371 * (\<bar>fst A - fst B\<bar> * pi / 180) \<le> 6371 * arccos c"
    by (rule mult_left_mono) simp
  moreover have "distanceKm A B = 6371 * arccos c"
    by (simp only: distanceKm_def Let_def a_def b_def dl_def c_def)
  ultimately show ?thesis by (simp only:)
qed

lemma waypointLoop_run:
  assumes "\<forall>j. i \<le> j \<and> j \<le> n \<longrightarrow>
     \<bar>of_int dep + (of_int j / of_int n * (dst / 800) * 60 * 60 * 1000)\<bar> \<le> (8640000000000000::real)"
  shows "waypointLoop A B dep dst n i acc = Inr (acc @ map (waypointAt A B dep dst n) [i..n])"
  using assms
proof (induction "nat (n + 1 - i)" arbitrary: i acc)
  case 0
  then have "n < i" by simp
  then show ?case by (simp add: waypointLoop.simps [of A B dep dst n i])
next
  case (Suc k)
  then have le: "i \<le> n" by linarith
  have k: "k = nat (n + 1 - (i + 1))" using Suc(2) by linarith
  have v: "\<bar>of_int dep + (of_int i / of_int n * (dst / 800) * 60 * 60 * 1000)\<bar> \<le> (8640000000000000::real)"
    using Suc(3) le by simp
  have rest: "\<forall>j. i + 1 \<le> j \<and> j \<le> n \<longrightarrow>
     \<bar>of_int dep + (of_int j / of_int n * (dst / 800) * 60 * 60 * 1000)\<bar> \<le> (8640000000000000::real)"
    using Suc(3) by simp
  have ih: "waypointLoop A B dep dst n (i + 1) (acc @ [waypointAt A B dep dst n i]) =
      Inr ((acc @ [waypointAt A B dep dst n i]) @ map (waypointAt A B dep dst n) [i + 1..n])"
    by (rule Suc(1) [OF k rest])
  have nd: "newDate (of_int dep + (of_int i / of_int n * (dst / 800) * 60 * 60 * 1000)) =
      Some (trunc (of_int dep + (of_int i / of_int n * (dst / 800) * 60 * 60 * 1000)))"
    using v by (simp only: newDate_def if_True)
  have "waypointLoop A B dep dst n i acc =
      waypointLoop A B dep dst n (i + 1) (acc @ [waypointAt A B dep dst n i])"
    by (subst waypointLoop.simps)
      (simp only: le if_True Let_def nd option.case case_prod_beta waypointAt_def)
  then show ?case using ih le by (simp add: upto_rec1 [of i n])
qed

lemma flight_time_window:
  assumes "0 \<le> j" "j \<le> n" "0 < n" "\<bar>of_int dep\<bar> \<le> (8600000000000000::real)"
  shows "\<bar>of_int dep + (of_int j / of_int n * (distanceKm A B / 800) * 60 * 60 * 1000)\<bar>
           \<le> (8640000000000000::real)"
proof -
  define q where "q = (of_int j / of_int n :: real)"
  have q: "0 \<le> q" "q \<le> 1" using assms by (simp_all add: q_def)
  have d: "0 \<le> distanceKm A B" "distanceKm A B \<le> 6371 * 4"
    using distanceKm_bounds [of A B] pi_less_4 by simp_all
  have "q * distanceKm A B \<le> 1 * distanceKm A B" using q d by (intro mult_right_mono) auto
  moreover have "0 \<le> q * distanceKm A B" using q d by simp
  moreover have "q * (distanceKm A B / 800) * 60 * 60 * 1000 = q * distanceKm A B * 4500" by simp
  ultimately show ?thesis using d assms(4) unfolding q_def [symmetric] by linarith
qed

lemma calculateFlightPath_run:
  assumes "map_of AIRPORTS (toUpperCase fromAirport) = Some A"
    "map_of AIRPORTS (toUpperCase toAirport) = Some B"
    "\<bar>of_int departureTime\<bar> \<le> (8600000000000000::real)"
  shows "calculateFlightPath fromAirport toAirport departureTime =
           Inr (map (waypointAt A B departureTime (distanceKm A B) (max 5 \<lfloor>distanceKm A B / 50\<rfloor>))
                  [0..max 5 \<lfloor>distanceKm A B / 50\<rfloor>])"
proof -
  define n where "n = max 5 \<lfloor>distanceKm A B / 50\<rfloor>"
  have n: "0 < n" by (simp add: n_def)
  have "\<forall>j. 0 \<le> j \<and> j \<le> n \<longrightarrow>
     \<bar>of_int departureTime + (of_int j / of_int n * (distanceKm A B / 800) * 60 * 60 * 1000)\<bar>
       \<le> (8640000000000000::real)"
    using flight_time_window [OF _ _ n assms(3)] by blast
  then have "waypointLoop A B departureTime (distanceKm A B) n 0 [] =
      Inr ([] @ map (waypointAt A B departureTime (distanceKm A B) n) [0..n])"
    by (rule waypointLoop_run)
  then show ?thesis using assms(1,2) by (simp add: calculateFlightPath_def Let_def n_def)
qed

lemma toUpperCase_examples:
  "toUpperCase ''del'' = ''DEL''" "toUpperCase ''DEL'' = ''DEL''" "toUpperCase ''JAI'' = ''JAI''"
  by code_simp+

lemma airports_lookup_examples:
  "map_of AIRPORTS (toUpperCase ''del'') = Some (28.5562, 77.1)"
  "map_of AIRPORTS (toUpperCase ''DEL'') = Some (28.5562, 77.1)"
  "map_of AIRPORTS (toUpperCase ''JAI'') = Some (26.8282, 75.8056)"
  unfolding toUpperCase_examples by (simp_all add: AIRPORTS_def)

lemma airports_latitude_range: "\<forall>(k, A) \<in> set AIRPORTS. \<bar>fst A\<bar> \<le> 90"
  by (simp add: AIRPORTS_def)

lemma airports_latitude_gap:
  "\<forall>(k1, A) \<in> set AIRPORTS. \<forall>(k2, B) \<in> set AIRPORTS. k1 \<noteq> k2 \<longrightarrow> 199 / 10000 \<le> \<bar>fst A - fst B\<bar>"
  by (simp add: AIRPORTS_def)

lemma trunc_strict: "x + 2 \<le> y \<Longrightarrow> trunc x < trunc y"
proof -
  assume a: "x + 2 \<le> y"
  have "of_int (trunc x) < x + 1" by (simp add: trunc_def) linarith
  moreover have "y - 1 < of_int (trunc y)" by (simp add: trunc_def) linarith
  ultimately have "(of_int (trunc x) :: real) < of_int (trunc y)" using a by linarith
  then show ?thesis by simp
qed

lemma waypoint_times_increase:
  assumes n: "0 < n" and s: "2 * real_of_int n \<le> 4500 * d" and ij: "i < j"
  shows "time (waypointAt A B dep d n i) < time (waypointAt A B dep d n j)"
proof -
  define u where "u = 4500 * d / real_of_int n"
  have u: "2 \<le> u" using n s by (simp add: u_def field_simps)
  have e: "of_int k / of_int n * (d / 800) * 60 * 60 * 1000 = of_int k * u" for k :: int
    by (simp add: u_def)
  have "real_of_int i + 1 \<le> real_of_int j" using ij by linarith
  then have "(real_of_int i + 1) * u \<le> real_of_int j * u" using u by (intro mult_right_mono) auto
  then have "real_of_int i * u + 2 \<le> real_of_int j * u" using u by (simp add: algebra_simps)
  then have "(of_int dep + real_of_int i * u) + 2 \<le> of_int dep + real_of_int j * u" by simp
  then have "trunc (of_int dep + real_of_int i * u) < trunc (of_int dep + real_of_int j * u)"
    by (rule trunc_strict)
  then show ?thesis by (simp only: waypointAt_def e Point.select_convs)
qed

lemma distinct_airports_step:
  assumes a: "map_of AIRPORTS k1 = Some A" and b: "map_of AIRPORTS k2 = Some B" and ne: "k1 \<noteq> k2"
  shows "2 * real_of_int (max 5 \<lfloor>distanceKm A B / 50\<rfloor>) \<le> 4500 * distanceKm A B"
proof -
  have ma: "(k1, A) \<in> set AIRPORTS" using a by (rule map_of_SomeD)
  have mb: "(k2, B) \<in> set AIRPORTS" using b by (rule map_of_SomeD)
  have la: "\<bar>fst A\<bar> \<le> 90" using airports_latitude_range ma by fastforce
  have lb: "\<bar>fst B\<bar> \<le> 90" using airports_latitude_range mb by fastforce
  have gap: "199 / 10000 \<le> \<bar>fst A - fst B\<bar>" using airports_latitude_gap ma mb ne by fastforce
  have "199 / 10000 * 2 \<le> \<bar>fst A - fst B\<bar> * pi"
    using gap pi_ge_two by (intro mult_mono) auto
  then have "6371 * (199 / 10000 * 2 / 180) \<le> 6371 * (\<bar>fst A - fst B\<bar> * pi / 180)"
    by (intro mult_left_mono divide_right_mono) auto
  then have d: "1 \<le> distanceKm A B" using distanceKm_latitude_gap [OF la lb] by linarith
  show ?thesis
  proof (cases "\<lfloor>distanceKm A B / 50\<rfloor> \<le> 5")
    case True
    then have "max 5 \<lfloor>distanceKm A B / 50\<rfloor> = 5" by simp
    then show ?thesis using d by simp
  next
    case False
    then have m: "max 5 \<lfloor>distanceKm A B / 50\<rfloor> = \<lfloor>distanceKm A B / 50\<rfloor>" by simp
    have "real_of_int \<lfloor>distanceKm A B / 50\<rfloor> \<le> distanceKm A B / 50" by (rule of_int_floor_le)
    then show ?thesis unfolding m using d by linarith
  qed
qed

lemma flight_path_identical_airports:
  assumes "map_of AIRPORTS (toUpperCase k) = Some A" "\<bar>of_int t\<bar> \<le> (8600000000000000::real)"
  shows "calculateFlightPath k k t = Inr (replicate 6 \<lparr>lat = NaN, lon = NaN, time = t\<rparr>)"
proof -
  have w: "waypointAt A A t 0 5 i = \<lparr>lat = NaN, lon = NaN, time = t\<rparr>" for i
    by (simp add: waypointAt_def calculateGreatCircle_same trunc_def)
  have u: "[0..5::int] = [0, 1, 2, 3, 4, 5]" by (simp add: upto.simps)
  show ?thesis
    unfolding calculateFlightPath_run [OF assms(1) assms(1) assms(2)] distanceKm_same
    by (simp add: u w numeral_eq_Suc)
qed

lemma identical_airports_status:
  assumes "map_of AIRPORTS (toUpperCase k) = Some A" "k \<noteq> []" "depart \<noteq> []"
    "dateParse env depart = Some t" "\<bar>of_int t\<bar> \<le> (8600000000000000::real)"
  shows "status (routeHandler env \<lparr>q_from = Some k, q_to = Some k, q_depart = Some depart,
                                   q_duration = duration\<rparr>) = 200"
  using assms(2-4)
  by (simp add: routeHandler_def flight_path_identical_airports [OF assms(1) assms(5)] Let_def)

lemma calculateSunPositions_azimuth:
  "map azimuth (calculateSunPositions engine waypoints departureTime) =
     map (\<lambda>w. nmul (fst (engine (Some (time w)) (lat w) (lon w))) (Num (180 / pi))) waypoints"
  by (simp add: calculateSunPositions_def Let_def)

subsection \<open>The interpolators at the fractions 0 and 1\<close>












subsection \<open>Event detection and the report\<close>

text \<open>
  One round of the loop of \<open>detectSunEvents\<close>, then what the whole loop leaves in the
  flags and in the sunrise slot. In the pipeline of \<open>analyzeFlightSunConditions\<close> every
  sample at or below the horizon is classified NIGHT or TWILIGHT, so an event implies
  the night flag before the report is built.
\<close>

lemma detectLoop_end: "length xs \<le> i \<Longrightarrow> detectLoop env xs i ev = ev"
  by (subst detectLoop.simps) simp

lemma detectLoop_step:
  assumes "i < length xs"
  shows "\<exists>ev'. detectLoop env xs i ev = detectLoop env xs (Suc i) ev' \<and>
           sunrise ev' = (if crossesUp xs i then Some (eventAt env (xs ! i)) else sunrise ev) \<and>
           sunset ev' = (if crossesDown xs i then Some (eventAt env (xs ! i)) else sunset ev) \<and>
           willSeeSunrise ev' = (crossesUp xs i \<or> willSeeSunrise ev) \<and>
           willSeeSunset ev' = (crossesDown xs i \<or> willSeeSunset ev) \<and>
           willSeeNight ev' =
             (willSeeNight ev \<or> condition (xs ! i) = NIGHT \<or> condition (xs ! i) = TWILIGHT)"
proof -
  define e1 where "e1 =
    (if condition (xs ! i) = NIGHT then
       ev\<lparr>willSeeNight := True, nightMinutes := nadd (nightMinutes ev) (Num 15)\<rparr>
     else if condition (xs ! i) = DAYLIGHT then
       ev\<lparr>dayMinutes := nadd (dayMinutes ev) (Num 15)\<rparr>
     else if condition (xs ! i) = GOLDEN_HOUR then
       ev\<lparr>willSeeGoldenHour := True,
          goldenHourMinutes := nadd (goldenHourMinutes ev) (Num 15)\<rparr>
     else if condition (xs ! i) = TWILIGHT then
       ev\<lparr>willSeeNight := True, nightMinutes := nadd (nightMinutes ev) (Num 15)\<rparr>
     else ev)"
  define e2 where "e2 =
    (if nle (sunElevation (xs ! (i - 1))) 0 \<and> ngt (sunElevation (xs ! i)) 0 then
       e1\<lparr>sunrise := Some (eventAt env (xs ! i)), willSeeSunrise := True\<rparr>
     else e1)"
  define e3 where "e3 =
    (if ngt (sunElevation (xs ! (i - 1))) 0 \<and> nle (sunElevation (xs ! i)) 0 then
       e2\<lparr>sunset := Some (eventAt env (xs ! i)), willSeeSunset := True\<rparr>
     else e2)"
  define e4 where "e4 = (if i > 0 then e3 else e1)"
  have p1: "sunrise e1 = sunrise ev" "sunset e1 = sunset ev"
    "willSeeSunrise e1 = willSeeSunrise ev" "willSeeSunset e1 = willSeeSunset ev"
    "willSeeNight e1 =
       (willSeeNight ev \<or> condition (xs ! i) = NIGHT \<or> condition (xs ! i) = TWILIGHT)"
    by (cases "condition (xs ! i)"; simp add: e1_def)+
  have p4: "sunrise e4 = (if crossesUp xs i then Some (eventAt env (xs ! i)) else sunrise e1)"
    "sunset e4 = (if crossesDown xs i then Some (eventAt env (xs ! i)) else sunset e1)"
    "willSeeSunrise e4 = (crossesUp xs i \<or> willSeeSunrise e1)"
    "willSeeSunset e4 = (crossesDown xs i \<or> willSeeSunset e1)"
    "willSeeNight e4 = willSeeNight e1"
    using assms by (auto simp: e4_def e3_def e2_def crossesUp_def crossesDown_def)
  have run: "detectLoop env xs i ev = detectLoop env xs (Suc i) e4"
    by (subst detectLoop.simps)
      (simp only: assms if_True Let_def e1_def e2_def e3_def e4_def Suc_eq_plus1)
  show ?thesis
    by (rule exI [of _ e4]) (simp only: run p4 p1 simp_thms)
qed

lemma detectLoop_flags:
  "willSeeSunrise (detectLoop env xs i ev) =
     (willSeeSunrise ev \<or> (\<exists>j. i \<le> j \<and> crossesUp xs j)) \<and>
   willSeeSunset (detectLoop env xs i ev) =
     (willSeeSunset ev \<or> (\<exists>j. i \<le> j \<and> crossesDown xs j)) \<and>
   willSeeNight (detectLoop env xs i ev) =
     (willSeeNight ev \<or>
      (\<exists>j. i \<le> j \<and> j < length xs \<and> (condition (xs ! j) = NIGHT \<or> condition (xs ! j) = TWILIGHT)))"
proof (induction "length xs - i" arbitrary: i ev)
  case 0
  then have "length xs \<le> i" by simp
  then show ?case by (auto simp: detectLoop_end crossesUp_def crossesDown_def)
next
  case (Suc k)
  then have i: "i < length xs" and k: "k = length xs - Suc i" by linarith+
  obtain ev' where s: "detectLoop env xs i ev = detectLoop env xs (Suc i) ev'"
    "willSeeSunrise ev' = (crossesUp xs i \<or> willSeeSunrise ev)"
    "willSeeSunset ev' = (crossesDown xs i \<or> willSeeSunset ev)"
    "willSeeNight ev' =
       (willSeeNight ev \<or> condition (xs ! i) = NIGHT \<or> condition (xs ! i) = TWILIGHT)"
    using detectLoop_step [OF i, of env ev] by blast
  have split: "(\<exists>j. i \<le> j \<and> P j) \<longleftrightarrow> P i \<or> (\<exists>j. Suc i \<le> j \<and> P j)" for P
    by (metis Suc_leD Suc_le_eq le_eq_less_or_eq)
  show ?case
    unfolding s(1) using Suc(1) [OF k, of ev']
    by (simp only: s(2,3,4) split [of "crossesUp xs"] split [of "crossesDown xs"]
          split [of "\<lambda>j. j < length xs \<and> (condition (xs ! j) = NIGHT \<or> condition (xs ! j) = TWILIGHT)"])
       (use i in blast)
qed

lemma detectLoop_sunrise:
  "sunrise (detectLoop env xs i ev) =
     (case filter (crossesUp xs) [i..<length xs] of
        [] \<Rightarrow> sunrise ev
      | j # js \<Rightarrow> Some (eventAt env (xs ! last (j # js))))"
proof (induction "length xs - i" arbitrary: i ev)
  case 0
  then have "length xs \<le> i" by simp
  then show ?case by (simp add: detectLoop_end)
next
  case (Suc k)
  then have i: "i < length xs" and k: "k = length xs - Suc i" by linarith+
  obtain ev' where s: "detectLoop env xs i ev = detectLoop env xs (Suc i) ev'"
    "sunrise ev' = (if crossesUp xs i then Some (eventAt env (xs ! i)) else sunrise ev)"
    using detectLoop_step [OF i, of env ev] by blast
  have u: "[i..<length xs] = i # [Suc i..<length xs]" using i by (rule upt_conv_Cons)
  show ?case
    unfolding s(1) Suc(1) [OF k, of ev'] u
    by (simp add: s(2) split: list.splits)
qed

lemma detectSunEvents_sunrise_last:
  "sunrise (detectSunEvents env xs) =
     (case filter (crossesUp xs) [0..<length xs] of
        [] \<Rightarrow> None
      | j # js \<Rightarrow> Some (eventAt env (xs ! last (j # js))))"
  unfolding detectSunEvents_def detectLoop_sunrise by (simp split: list.splits)

lemma classified_below_horizon:
  "nle e 0 \<Longrightarrow> classifySunCondition e = NIGHT \<or> classifySunCondition e = TWILIGHT"
  by (cases e) (auto simp: classifySunCondition_def)

lemma analyzeSunConditions_classified:
  "i < length (analyzeSunConditions env ps) \<Longrightarrow>
     condition (analyzeSunConditions env ps ! i) =
       classifySunCondition (sunElevation (analyzeSunConditions env ps ! i))"
  by (simp add: analyzeSunConditions_def Let_def)

lemma pipeline_events_imply_night:
  assumes "willSeeSunrise (detectSunEvents env (analyzeSunConditions env ps)) \<or>
           willSeeSunset (detectSunEvents env (analyzeSunConditions env ps))"
  shows "willSeeNight (detectSunEvents env (analyzeSunConditions env ps))"
proof -
  define xs where "xs = analyzeSunConditions env ps"
  have c: "condition (xs ! i) = classifySunCondition (sunElevation (xs ! i))" if "i < length xs" for i
    using that unfolding xs_def by (rule analyzeSunConditions_classified)
  have f: "willSeeSunrise (detectSunEvents env xs) = (\<exists>j. crossesUp xs j)"
    "willSeeSunset (detectSunEvents env xs) = (\<exists>j. crossesDown xs j)"
    "willSeeNight (detectSunEvents env xs) =
       (\<exists>j. j < length xs \<and> (condition (xs ! j) = NIGHT \<or> condition (xs ! j) = TWILIGHT))"
    unfolding detectSunEvents_def using detectLoop_flags [of env xs 0] by simp_all
  from assms consider j where "crossesUp xs j" | j where "crossesDown xs j"
    unfolding xs_def [symmetric] f by blast
  then show ?thesis
  proof cases
    case 1
    then have "j - 1 < length xs" "nle (sunElevation (xs ! (j - 1))) 0"
      by (auto simp: crossesUp_def)
    then show ?thesis
      unfolding xs_def [symmetric] f using c classified_below_horizon by metis
  next
    case 2
    then have "j < length xs" "nle (sunElevation (xs ! j)) 0" by (auto simp: crossesDown_def)
    then show ?thesis
      unfolding xs_def [symmetric] f using c classified_below_horizon by metis
  qed
qed

lemma reportEvents_flags:
  assumes "reportEvents r0 ev f t = Inr (r, ev')"
  shows "willSeeSunrise r = willSeeSunrise r0 \<and> willSeeSunset r = willSeeSunset r0 \<and>
         willSeeNight r = willSeeNight r0"
proof -
  consider (both) "willSeeSunrise ev" "willSeeSunset ev"
    | (rise) "willSeeSunrise ev" "\<not> willSeeSunset ev"
    | (set) "\<not> willSeeSunrise ev" "willSeeSunset ev"
    | (none) "\<not> willSeeSunrise ev" "\<not> willSeeSunset ev" by blast
  then show ?thesis
  proof cases
    case both
    show ?thesis
    proof (cases "sunrise ev")
      case None
      then show ?thesis using assms both by (simp add: reportEvents_def)
    next
      case (Some sr)
      show ?thesis
      proof (cases "sunset ev")
        case None
        then show ?thesis using assms both Some by (simp add: reportEvents_def)
      next
        case (Some ss)
        show ?thesis
          using assms both \<open>sunrise ev = Some sr\<close> Some
          by (cases "willSeeNight ev") (clarsimp simp: reportEvents_def Let_def)+
      qed
    qed
  next
    case rise
    show ?thesis
    proof (cases "sunrise ev")
      case None
      then show ?thesis using assms rise by (simp add: reportEvents_def)
    next
      case (Some sr)
      then show ?thesis using assms rise
        by (cases "determineSeatSideForSunrise f t") (clarsimp simp: reportEvents_def)+
    qed
  next
    case set
    show ?thesis
    proof (cases "sunset ev")
      case None
      then show ?thesis using assms set by (simp add: reportEvents_def)
    next
      case (Some ss)
      then show ?thesis using assms set
        by (cases "determineSeatSideForSunset f t") (clarsimp simp: reportEvents_def)+
    qed
  next
    case none
    then show ?thesis using assms by (clarsimp simp: reportEvents_def)
  qed
qed

lemma reportFlags_flags:
  "willSeeSunrise (reportFlags r ev) = willSeeSunrise r \<and>
   willSeeSunset (reportFlags r ev) = willSeeSunset r \<and>
   willSeeNight (reportFlags r ev) = willSeeNight r"
  by (simp add: reportFlags_def Let_def)

lemma generateFlightSunReport_flags:
  assumes "generateFlightSunReport ev xs f t = Inr (r, ev')"
  shows "willSeeSunrise r = willSeeSunrise ev \<and> willSeeSunset r = willSeeSunset ev \<and>
         willSeeNight r = willSeeNight ev"
proof -
  define r0 :: FlightSunAnalysis where
    "r0 = \<lparr>willSeeSunrise = willSeeSunrise ev, willSeeSunset = willSeeSunset ev,
           willSeeNight = willSeeNight ev, willSeeGoldenHour = willSeeGoldenHour ev,
           sunrise = sunrise ev, sunset = sunset ev, summary = [], recommendations = [],
           seatSuggestion = Either, timeline = xs, nightDuration = Some (nightMinutes ev),
           dayDuration = Some (dayMinutes ev)\<rparr>"
  have g: "generateFlightSunReport ev xs f t =
      (case reportEvents r0 ev f t of
         Inl e \<Rightarrow> Inl e
       | Inr (report, events) \<Rightarrow> Inr (reportFlags report events, events))"
    by (simp add: generateFlightSunReport_def Let_def r0_def)
  have z: "willSeeSunrise r0 = willSeeSunrise ev" "willSeeSunset r0 = willSeeSunset ev"
    "willSeeNight r0 = willSeeNight ev" by (simp_all add: r0_def)
  show ?thesis
  proof (cases "reportEvents r0 ev f t")
    case (Inl e)
    then show ?thesis using assms g by simp
  next
    case (Inr p)
    obtain r1 e1 where p: "p = (r1, e1)" by (cases p)
    have r: "r = reportFlags r1 e1" using assms g Inr p by auto
    have e: "reportEvents r0 ev f t = Inr (r1, e1)" using Inr p by simp
    show ?thesis
      using reportEvents_flags [OF e] reportFlags_flags [of r1 e1] z unfolding r by simp
  qed
qed

lemma analysis_events_imply_night:
  assumes "analyzeFlightSunConditions env f t d tm dur = Inr report"
    and "willSeeSunrise report \<or> willSeeSunset report"
  shows "willSeeNight report"
proof -
  from assms(1) obtain A B s ev' where
    g: "generateFlightSunReport
          (detectSunEvents env (analyzeSunConditions env (generateFlightSamplingPoints A B s dur)))
          (analyzeSunConditions env (generateFlightSamplingPoints A B s dur)) f t = Inr (report, ev')"
    by (auto simp: analyzeFlightSunConditions_def Let_def map_sum_def
          split: option.splits if_splits sum.splits)
  show ?thesis
    using generateFlightSunReport_flags [OF g] assms(2) pipeline_events_imply_night by blast
qed

text \<open>
  The builder on its own: on events that hold both a sunrise and a sunset and no night
  flag, it sets \<open>willSeeNight\<close> on \<open>events\<close> only, after the report has copied the flag.
  \<open>analyzeFlightSunConditions\<close>, its one caller, never passes such events
  (lemma \<open>pipeline_events_imply_night\<close>).
\<close>

lemma generateFlightSunReport_night_flag_copied:
  "map_sum id
     (\<lambda>(report, events'). (willSeeSunrise report, willSeeSunset report, willSeeNight report,
                            willSeeNight events'))
     (generateFlightSunReport
        (events\<lparr>willSeeSunrise := True, willSeeSunset := True, willSeeNight := False,
                sunrise := Some sr, sunset := Some ss\<rparr>)
        sunAnalysis fromAirport toAirport)
     = Inr (True, True, False, True)"
  by (simp add: generateFlightSunReport_def reportEvents_def reportFlags_def Let_def)

text \<open>
  A detected event fills its slot, so the builder does not fail on both events; and the
  half-hour flight of \<open>sampleEnv\<close> from Delhi to Jaipur, which has a sunset at the middle
  sample and a sunrise at the last one.
\<close>

lemma sampling_three:
  "generateFlightSamplingPoints A B (Some 0) (1 / 2) =
     [\<lparr>lat = fst (interpolateGreatCircle A B (Num 0)), lon = snd (interpolateGreatCircle A B (Num 0)),
       time = Some 0, progressPercent = Num 0\<rparr>,
      \<lparr>lat = fst (interpolateGreatCircle A B (Num (1 / 2))), lon = snd (interpolateGreatCircle A B (Num (1 / 2))),
       time = Some 900000, progressPercent = Num 50\<rparr>,
      \<lparr>lat = fst (interpolateGreatCircle A B (Num 1)), lon = snd (interpolateGreatCircle A B (Num 1)),
       time = Some 1800000, progressPercent = Num 100\<rparr>]"
  unfolding generateFlightSamplingPoints_def Let_def
  apply (subst samplingLoop.simps, simp add: newDate_def trunc_def Let_def del: interpolateGreatCircle.simps)
  apply (subst samplingLoop.simps, simp add: newDate_def trunc_def Let_def del: interpolateGreatCircle.simps)
  apply (subst samplingLoop.simps, simp add: newDate_def trunc_def Let_def del: interpolateGreatCircle.simps)
  apply (subst samplingLoop.simps, simp add: newDate_def trunc_def Let_def del: interpolateGreatCircle.simps)
  done

lemma analysis_three:
  "analyzeSunConditions sampleEnv (generateFlightSamplingPoints A B (Some 0) (1 / 2)) = xs \<Longrightarrow>
   length xs = 3 \<and> sunElevation (xs ! 0) = Num (18 / pi) \<and> sunElevation (xs ! 1) = Num (- (18 / pi)) \<and>
   sunElevation (xs ! 2) = Num (18 / pi)"
  unfolding sampling_three
  by (auto simp add: analyzeSunConditions_def sampleEnv_def Let_def simp del: interpolateGreatCircle.simps)

lemma detectLoop_slots:
  assumes "willSeeSunrise ev \<longrightarrow> sunrise ev \<noteq> None" "willSeeSunset ev \<longrightarrow> sunset ev \<noteq> None"
  shows "(willSeeSunrise (detectLoop env xs i ev) \<longrightarrow> sunrise (detectLoop env xs i ev) \<noteq> None) \<and>
         (willSeeSunset (detectLoop env xs i ev) \<longrightarrow> sunset (detectLoop env xs i ev) \<noteq> None)"
  using assms
proof (induction "length xs - i" arbitrary: i ev)
  case 0
  then have "length xs \<le> i" by simp
  then show ?case using 0 by (simp add: detectLoop_end)
next
  case (Suc k)
  then have i: "i < length xs" and k: "k = length xs - Suc i" by linarith+
  obtain ev' where s: "detectLoop env xs i ev = detectLoop env xs (Suc i) ev'"
    "sunrise ev' = (if crossesUp xs i then Some (eventAt env (xs ! i)) else sunrise ev)"
    "sunset ev' = (if crossesDown xs i then Some (eventAt env (xs ! i)) else sunset ev)"
    "willSeeSunrise ev' = (crossesUp xs i \<or> willSeeSunrise ev)"
    "willSeeSunset ev' = (crossesDown xs i \<or> willSeeSunset ev)"
    using detectLoop_step [OF i, of env ev] by blast
  have "willSeeSunrise ev' \<longrightarrow> sunrise ev' \<noteq> None" "willSeeSunset ev' \<longrightarrow> sunset ev' \<noteq> None"
    using Suc.prems by (simp_all add: s)
  then show ?case unfolding s(1) by (rule Suc(1) [OF k])
qed

lemma generateFlightSunReport_both:
  assumes "willSeeSunrise ev" "willSeeSunset ev" "sunrise ev = Some sr" "sunset ev = Some ss"
  shows "\<exists>p. generateFlightSunReport ev xs f t = Inr p"
  using assms by (simp add: generateFlightSunReport_def reportEvents_def Let_def)

lemma sample_both:
  "\<exists>report events'.
     generateFlightSunReport
       (detectSunEvents sampleEnv
          (analyzeSunConditions sampleEnv
             (generateFlightSamplingPoints (28.5562, 77.1) (26.8282, 75.8056) (Some 0) (1 / 2))))
       (analyzeSunConditions sampleEnv
          (generateFlightSamplingPoints (28.5562, 77.1) (26.8282, 75.8056) (Some 0) (1 / 2)))
       ''DEL'' ''JAI'' = Inr (report, events') \<and>
     analyzeFlightSunConditions sampleEnv ''DEL'' ''JAI'' ''2025-08-01'' ''18:00'' (1 / 2) = Inr report \<and>
     willSeeSunrise report \<and> willSeeSunset report"
proof -
  have d: "dateParse sampleEnv s = Some 0" for s by (simp add: sampleEnv_def)
  have a: "map_of AIRPORTS ''DEL'' = Some (28.5562, 77.1)" "map_of AIRPORTS ''JAI'' = Some (26.8282, 75.8056)"
    by (simp_all add: AIRPORTS_def)
  define xs where "xs = analyzeSunConditions sampleEnv (generateFlightSamplingPoints (28.5562, 77.1) (26.8282, 75.8056) (Some 0) (1 / 2))"
  have x: "length xs = 3" "sunElevation (xs ! 0) = Num (18 / pi)" "sunElevation (xs ! 1) = Num (- (18 / pi))"
    "sunElevation (xs ! 2) = Num (18 / pi)"
    using analysis_three [OF xs_def [symmetric]] by simp_all
  have up: "crossesUp xs 2" using x by (simp add: crossesUp_def numeral_2_eq_2)
  have down: "crossesDown xs 1" using x by (simp add: crossesDown_def)
  define ev where "ev = detectSunEvents sampleEnv xs"
  have f: "willSeeSunrise ev" "willSeeSunset ev"
    unfolding ev_def detectSunEvents_def using detectLoop_flags [of sampleEnv xs 0] up down by auto
  have "sunrise ev \<noteq> None" "sunset ev \<noteq> None"
    unfolding ev_def detectSunEvents_def
    using detectLoop_slots [of _ sampleEnv xs 0] f [unfolded ev_def detectSunEvents_def] by simp_all
  then obtain sr ss where "sunrise ev = Some sr" "sunset ev = Some ss" by auto
  from generateFlightSunReport_both [OF f this] obtain r ev' where
    g: "generateFlightSunReport ev xs ''DEL'' ''JAI'' = Inr (r, ev')" by force
  have "analyzeFlightSunConditions sampleEnv ''DEL'' ''JAI'' ''2025-08-01'' ''18:00'' (1 / 2) = Inr r"
    using g by (simp add: analyzeFlightSunConditions_def a d newDate_def trunc_def Let_def xs_def ev_def)
  moreover have "willSeeSunrise r" "willSeeSunset r"
    using generateFlightSunReport_flags [OF g] f by simp_all
  ultimately show ?thesis using g unfolding ev_def xs_def by blast
qed

lemma bearing_due_north: "calculateBearing (Num 0) (Num 0) (Num 10) (Num 0) = Num 0"
proof -
  have "0 < sin (pi / 18)" by (intro sin_gt_zero) simp_all
  then have a: "atan2 0 (sin (pi / 18)) = 0" by (simp add: atan2_def)
  have j: "jsmod 360 360 = 0" using jsmod_sub [of 360 360] by simp
  show ?thesis by (simp only: calculateBearing.simps Let_def) (simp add: a j)
qed

section \<open>Results\<close>

text \<open>
  C1, the code at a sun due East. SunCalc reports the azimuth \<open>-\<pi>/2\<close> (South-referenced,
  East is negative) at elevation 45 degrees on a path flown due North. The samples store
  -90 degrees, not the North-referenced bearing 90: no conversion is applied, neither
  when the sample is built nor before the mean is compared with the flight bearing.
  \<open>getSeatRecommendation\<close> answers "right"; on the converted azimuths it answers "left".
\<close>

theorem seat_recommendation_south_referenced:
  "map azimuth
     (calculateSunPositions (\<lambda>t la lo. (Num (- (pi / 2)), Num (pi / 4)))
        [\<lparr>lat = Num 0, lon = Num 0, time = 0\<rparr>, \<lparr>lat = Num 10, lon = Num 0, time = 3600000\<rparr>] 0)
     = [Num (- 90), Num (- 90)] \<and>
   map (northReferenced \<circ> azimuth)
     (calculateSunPositions (\<lambda>t la lo. (Num (- (pi / 2)), Num (pi / 4)))
        [\<lparr>lat = Num 0, lon = Num 0, time = 0\<rparr>, \<lparr>lat = Num 10, lon = Num 0, time = 3600000\<rparr>] 0)
     = [Num 90, Num 90] \<and>
   getSeatRecommendation
     (calculateSunPositions (\<lambda>t la lo. (Num (- (pi / 2)), Num (pi / 4)))
        [\<lparr>lat = Num 0, lon = Num 0, time = 0\<rparr>, \<lparr>lat = Num 10, lon = Num 0, time = 3600000\<rparr>] 0)
     [\<lparr>lat = Num 0, lon = Num 0, time = 0\<rparr>, \<lparr>lat = Num 10, lon = Num 0, time = 3600000\<rparr>]
     = ''right'' \<and>
   getSeatRecommendation
     (map (\<lambda>s. s\<lparr>azimuth := northReferenced (azimuth s)\<rparr>)
        (calculateSunPositions (\<lambda>t la lo. (Num (- (pi / 2)), Num (pi / 4)))
           [\<lparr>lat = Num 0, lon = Num 0, time = 0\<rparr>, \<lparr>lat = Num 10, lon = Num 0, time = 3600000\<rparr>] 0))
     [\<lparr>lat = Num 0, lon = Num 0, time = 0\<rparr>, \<lparr>lat = Num 10, lon = Num 0, time = 3600000\<rparr>]
     = ''left''"
proof -
  have j: "jsmod 90 360 = 90" "jsmod 450 360 = 90" "jsmod 270 360 = 270" "jsmod (- 90) 360 = - 90"
    using jsmod_id [of 90 360] jsmod_sub [of 360 450] jsmod_id [of 270 360]
      jsmod_neg_id [of 360 "- 90"]
    by simp_all
  show ?thesis
    by (simp add: calculateSunPositions_def getSeatRecommendation_def Let_def j
          bearing_due_north del: calculateBearing.simps)
qed

text \<open>
  C2. Whenever \<open>analyzeFlightSunConditions\<close> returns a report in which both a sunrise
  and a sunset are detected, the report has \<open>willSeeNight = true\<close>; so has the report
  that its three stages (classification, event detection, report) build from any list of
  sampling points. The flag is set by \<open>detectSunEvents\<close>: a crossing of the horizon has
  a sample with an elevation at or below 0, which the classifier makes NIGHT or TWILIGHT;
  the report copies the three flags. So no analysis has both events and no sample
  classified NIGHT or TWILIGHT. The instance is the half-hour flight of \<open>sampleEnv\<close>
  from Delhi to Jaipur, during which the sun is below the horizon at the middle sample
  only.
\<close>

theorem analysis_reports_night_between_events:
  "(analyzeFlightSunConditions env fromAirport toAirport departureDate departureTime flightDuration
      = Inr report \<and>
    willSeeSunrise report \<and> willSeeSunset report \<longrightarrow> willSeeNight report) \<and>
   (generateFlightSunReport (detectSunEvents env (analyzeSunConditions env samplingPoints))
      (analyzeSunConditions env samplingPoints) fromAirport toAirport = Inr (report', events') \<and>
    willSeeSunrise report' \<and> willSeeSunset report' \<longrightarrow> willSeeNight report')"
proof (intro conjI impI)
  assume "analyzeFlightSunConditions env fromAirport toAirport departureDate departureTime flightDuration
      = Inr report \<and>
    willSeeSunrise report \<and> willSeeSunset report"
  then show "willSeeNight report" using analysis_events_imply_night by blast
next
  assume a: "generateFlightSunReport (detectSunEvents env (analyzeSunConditions env samplingPoints))
      (analyzeSunConditions env samplingPoints) fromAirport toAirport = Inr (report', events') \<and>
    willSeeSunrise report' \<and> willSeeSunset report'"
  then have g: "generateFlightSunReport (detectSunEvents env (analyzeSunConditions env samplingPoints))
      (analyzeSunConditions env samplingPoints) fromAirport toAirport = Inr (report', events')"
    by blast
  show "willSeeNight report'"
    using generateFlightSunReport_flags [OF g] a pipeline_events_imply_night by blast
qed

theorem analysis_reports_night_witness:
  "\<exists>report events'.
     generateFlightSunReport
       (detectSunEvents sampleEnv
          (analyzeSunConditions sampleEnv
             (generateFlightSamplingPoints (28.5562, 77.1) (26.8282, 75.8056) (Some 0) (1 / 2))))
       (analyzeSunConditions sampleEnv
          (generateFlightSamplingPoints (28.5562, 77.1) (26.8282, 75.8056) (Some 0) (1 / 2)))
       ''DEL'' ''JAI'' = Inr (report, events') \<and>
     analyzeFlightSunConditions sampleEnv ''DEL'' ''JAI'' ''2025-08-01'' ''18:00'' (1 / 2) = Inr report \<and>
     willSeeSunrise report \<and> willSeeSunset report \<and> willSeeNight report"
proof -
  obtain report events' where
    r: "generateFlightSunReport
       (detectSunEvents sampleEnv
          (analyzeSunConditions sampleEnv
             (generateFlightSamplingPoints (28.5562, 77.1) (26.8282, 75.8056) (Some 0) (1 / 2))))
       (analyzeSunConditions sampleEnv
          (generateFlightSamplingPoints (28.5562, 77.1) (26.8282, 75.8056) (Some 0) (1 / 2)))
       ''DEL'' ''JAI'' = Inr (report, events')"
      "analyzeFlightSunConditions sampleEnv ''DEL'' ''JAI'' ''2025-08-01'' ''18:00'' (1 / 2) = Inr report"
      "willSeeSunrise report" "willSeeSunset report"
    using sample_both by blast
  then have "willSeeNight report"
    using analysis_reports_night_between_events
      [of sampleEnv "''DEL''" "''JAI''" "''2025-08-01''" "''18:00''" "1 / 2" report
        "generateFlightSamplingPoints (28.5562, 77.1) (26.8282, 75.8056) (Some 0) (1 / 2)"
        report events']
    by simp
  then show ?thesis using r by blast
qed

text \<open>
  C3, the code on a timeline with three upward crossings (elevations -1, 1, -1, 1, -1, 1;
  crossings at the indices 1, 3 and 5). One sunrise event is returned, and it is the one
  of the last crossing (index 5), not of the first (index 1): each crossing overwrites
  the event. The sunset is likewise the last downward crossing (index 4).
\<close>

theorem sunrise_event_is_last_crossing:
  "sunrise (detectSunEvents env
     (map (\<lambda>(i, e). syntheticSample i e) (zip [0..<6] [- 1, 1, - 1, 1, - 1, 1]))) =
     Some (eventAt env (syntheticSample 5 1)) \<and>
   sunrise (detectSunEvents env
     (map (\<lambda>(i, e). syntheticSample i e) (zip [0..<6] [- 1, 1, - 1, 1, - 1, 1]))) \<noteq>
     Some (eventAt env (syntheticSample 1 1)) \<and>
   sunset (detectSunEvents env
     (map (\<lambda>(i, e). syntheticSample i e) (zip [0..<6] [- 1, 1, - 1, 1, - 1, 1]))) =
     Some (eventAt env (syntheticSample 4 (- 1)))"
  apply (simp add: detectSunEvents_def upt_rec)
  apply (simp add: detectLoop.simps syntheticSample_def classifySunCondition_def eventAt_def)
  done

text \<open>
  C4 (as amended). For a pair of known airports with flight bearing \<open>b\<close>,
  \<open>determineSeatSideForSunrise\<close> returns the right side when \<open>b\<close> is in
  \<open>[315, 360)\<close> or \<open>[0, 135)\<close> and the left side when \<open>b\<close> is in \<open>[135, 315)\<close>;
  \<open>determineSeatSideForSunset\<close> returns the other side; neither returns "either". This
  quadrant rule agrees with the decision rule of section 4.5 at the fixed sun bearing
  exactly for \<open>b\<close> in \<open>(90, 135)\<close> or \<open>[270, 315)\<close> (sunrise, 90 degrees) and for \<open>b\<close>
  in \<open>[90, 135)\<close> or \<open>(270, 315)\<close> (sunset, 270 degrees).
\<close>

theorem event_side_by_quadrant:
  "map_of AIRPORTS fromAirport = Some A \<and> map_of AIRPORTS toAirport = Some B \<and>
   calculateBearing (Num (fst A)) (Num (snd A)) (Num (fst B)) (Num (snd B)) = Num b \<longrightarrow>
     determineSeatSideForSunrise fromAirport toAirport =
       Inr (if 315 \<le> b \<or> b < 135 then Right else Left) \<and>
     determineSeatSideForSunset fromAirport toAirport =
       Inr (if 315 \<le> b \<or> b < 135 then Left else Right) \<and>
     (determineSeatSideForSunrise fromAirport toAirport = Inr (spec_recommendForEvent A B True)
        \<longleftrightarrow> (90 < b \<and> b < 135) \<or> (270 \<le> b \<and> b < 315)) \<and>
     (determineSeatSideForSunset fromAirport toAirport = Inr (spec_recommendForEvent A B False)
        \<longleftrightarrow> (90 \<le> b \<and> b < 135) \<or> (270 < b \<and> b < 315))"
proof (intro impI)
  assume h: "map_of AIRPORTS fromAirport = Some A \<and> map_of AIRPORTS toAirport = Some B \<and>
   calculateBearing (Num (fst A)) (Num (snd A)) (Num (fst B)) (Num (snd B)) = Num b"
  then have hA: "map_of AIRPORTS fromAirport = Some A"
    and hB: "map_of AIRPORTS toAirport = Some B"
    and hC: "calculateBearing (Num (fst A)) (Num (snd A)) (Num (fst B)) (Num (snd B)) = Num b"
    by blast+
  note 1 = seat_side_sunrise_bearing [OF hA hB hC]
  note 2 = seat_side_sunset_bearing [OF hA hB hC]
  note 3 = spec_sunrise_bearing [OF hC]
  note 4 = spec_sunset_bearing [OF hC]
  show "determineSeatSideForSunrise fromAirport toAirport =
       Inr (if 315 \<le> b \<or> b < 135 then Right else Left) \<and>
     determineSeatSideForSunset fromAirport toAirport =
       Inr (if 315 \<le> b \<or> b < 135 then Left else Right) \<and>
     (determineSeatSideForSunrise fromAirport toAirport = Inr (spec_recommendForEvent A B True)
        \<longleftrightarrow> (90 < b \<and> b < 135) \<or> (270 \<le> b \<and> b < 315)) \<and>
     (determineSeatSideForSunset fromAirport toAirport = Inr (spec_recommendForEvent A B False)
        \<longleftrightarrow> (90 \<le> b \<and> b < 135) \<or> (270 < b \<and> b < 315))"
    unfolding 1 2 3 4 by auto
qed

theorem event_side_witness:
  "\<exists>b. calculateBearing (Num 26.8282) (Num 75.8056) (Num 28.5562) (Num 77.1) = Num b \<and>
       0 < b \<and> b < 90 \<and>
       determineSeatSideForSunrise ''JAI'' ''DEL'' = Inr Right \<and>
       determineSeatSideForSunset ''JAI'' ''DEL'' = Inr Left"
proof -
  obtain b where b: "calculateBearing (Num 26.8282) (Num 75.8056) (Num 28.5562) (Num 77.1) = Num b"
    "0 < b" "b < 90"
    using bearing_north_east [of "26.8282" "28.5562" "75.8056" "77.1"] by auto
  show ?thesis
    using event_side_by_quadrant [of "''JAI''" "(26.8282, 75.8056)" "''DEL''" "(28.5562, 77.1)" b]
      airports_JAI_DEL b
    by auto
qed

text \<open>
  C4 as stated fails: from Jaipur to Delhi the bearing lies between 0 and 90 degrees;
  the code recommends the right side for a sunrise and the left side for a sunset, the
  rule of section 4.5 the left side and the right side.
\<close>

theorem event_side_counterexample:
  "determineSeatSideForSunrise ''JAI'' ''DEL'' \<noteq>
     Inr (spec_recommendForEvent (26.8282, 75.8056) (28.5562, 77.1) True) \<and>
   determineSeatSideForSunset ''JAI'' ''DEL'' \<noteq>
     Inr (spec_recommendForEvent (26.8282, 75.8056) (28.5562, 77.1) False)"
proof -
  obtain b where b: "calculateBearing (Num 26.8282) (Num 75.8056) (Num 28.5562) (Num 77.1) = Num b"
    "0 < b" "b < 90"
    using bearing_north_east [of "26.8282" "28.5562" "75.8056" "77.1"] by auto
  have c: "calculateBearing (Num (fst (26.8282, 75.8056))) (Num (snd (26.8282, 75.8056)))
             (Num (fst (28.5562, 77.1))) (Num (snd (28.5562, 77.1))) = Num b"
    using b(1) by simp
  show ?thesis
    unfolding seat_side_sunrise_bearing [OF airports_JAI_DEL c]
      seat_side_sunset_bearing [OF airports_JAI_DEL c]
      spec_sunrise_bearing [OF c] spec_sunset_bearing [OF c]
    using b by simp
qed




text \<open>
  C6 (as amended). For every pair of known airports (looked up case-insensitively) and
  every departure time at most \<open>8.6e15\<close> ms from the epoch, \<open>calculateFlightPath\<close>
  returns \<open>max(5, floor(distance_km / 50)) + 1\<close> waypoints: the loop runs over the
  indices \<open>0, ..., numWaypoints\<close>, both ends included.
\<close>

theorem flight_path_waypoint_count:
  "map_of AIRPORTS (toUpperCase fromAirport) = Some A \<and>
   map_of AIRPORTS (toUpperCase toAirport) = Some B \<and>
   \<bar>departureTime\<bar> \<le> 8600000000000000 \<longrightarrow>
     (\<exists>waypoints. calculateFlightPath fromAirport toAirport departureTime = Inr waypoints \<and>
        int (length waypoints) = max 5 \<lfloor>distanceKm A B / 50\<rfloor> + 1)"
proof
  assume h: "map_of AIRPORTS (toUpperCase fromAirport) = Some A \<and>
   map_of AIRPORTS (toUpperCase toAirport) = Some B \<and>
   \<bar>departureTime\<bar> \<le> 8600000000000000"
  then have t: "\<bar>of_int departureTime\<bar> \<le> (8600000000000000::real)" by linarith
  from h have a: "map_of AIRPORTS (toUpperCase fromAirport) = Some A"
    and b: "map_of AIRPORTS (toUpperCase toAirport) = Some B" by blast+
  show "\<exists>waypoints. calculateFlightPath fromAirport toAirport departureTime = Inr waypoints \<and>
        int (length waypoints) = max 5 \<lfloor>distanceKm A B / 50\<rfloor> + 1"
    unfolding calculateFlightPath_run [OF a b t] by simp
qed

theorem flight_path_waypoint_count_witness:
  "\<exists>waypoints. calculateFlightPath ''del'' ''JAI'' 1754071200000 = Inr waypoints \<and>
     int (length waypoints) = max 5 \<lfloor>distanceKm (28.5562, 77.1) (26.8282, 75.8056) / 50\<rfloor> + 1"
  using flight_path_waypoint_count [of "''del''" "(28.5562, 77.1)" "''JAI''" "(26.8282, 75.8056)"
      1754071200000]
    airports_lookup_examples
  by simp

text \<open>
  C6 as stated fails: from Delhi to Jaipur the path does not have
  \<open>max(5, floor(distance_km / 50))\<close> waypoints (it has one more).
\<close>

theorem flight_path_waypoint_count_counterexample:
  "\<exists>waypoints. calculateFlightPath ''DEL'' ''JAI'' 1754071200000 = Inr waypoints \<and>
     int (length waypoints) \<noteq> max 5 \<lfloor>distanceKm (28.5562, 77.1) (26.8282, 75.8056) / 50\<rfloor>"
proof -
  have t: "\<bar>of_int 1754071200000\<bar> \<le> (8600000000000000::real)" by simp
  show ?thesis
    unfolding calculateFlightPath_run [OF airports_lookup_examples(2,3) t] by simp
qed




text \<open>
  C8. The elevation classifier is total on elevations and splits them into four
  contiguous ranges: below 0 is NIGHT, from 0 up to 6 is TWILIGHT, from 6 up to 10 is
  GOLDEN_HOUR, from 10 on is DAYLIGHT; as the elevation rises the condition never goes
  back, so the only transitions are at 0, 6 and 10, in that order.
\<close>

theorem classifySunCondition_ranges:
  "(classifySunCondition (Num e) = NIGHT \<longleftrightarrow> e < 0) \<and>
   (classifySunCondition (Num e) = TWILIGHT \<longleftrightarrow> 0 \<le> e \<and> e < 6) \<and>
   (classifySunCondition (Num e) = GOLDEN_HOUR \<longleftrightarrow> 6 \<le> e \<and> e < 10) \<and>
   (classifySunCondition (Num e) = DAYLIGHT \<longleftrightarrow> 10 \<le> e) \<and>
   (e \<le> e' \<longrightarrow>
      conditionRank (classifySunCondition (Num e)) \<le> conditionRank (classifySunCondition (Num e')))"
  by (simp add: classifySunCondition_def)

theorem classifySunCondition_ranges_witness:
  "classifySunCondition (Num (-5)) = NIGHT \<and> classifySunCondition (Num 7) = GOLDEN_HOUR \<and>
   (-5::real) \<le> 7 \<and>
   conditionRank (classifySunCondition (Num (-5))) \<le> conditionRank (classifySunCondition (Num 7))"
  using classifySunCondition_ranges [of "-5" 7] classifySunCondition_ranges [of 7 7]
  by simp

text \<open>
  C9, the code at a request with identical airport codes: \<open>from = to = DEL\<close> with a
  departure time that parses. The handler does not reject it: it computes the flight
  path (six waypoints whose coordinates are \<open>NaN\<close>, all at the departure time) and
  answers with status 200.
\<close>

theorem identical_airports_not_rejected:
  "status (routeHandler (env\<lparr>dateParse := \<lambda>s. Some 1754071200000\<rparr>)
            \<lparr>q_from = Some ''DEL'', q_to = Some ''DEL'',
             q_depart = Some ''2025-08-01T18:00Z'', q_duration = None\<rparr>) = 200 \<and>
   path (body (routeHandler (env\<lparr>dateParse := \<lambda>s. Some 1754071200000\<rparr>)
            \<lparr>q_from = Some ''DEL'', q_to = Some ''DEL'',
             q_depart = Some ''2025-08-01T18:00Z'', q_duration = None\<rparr>)) =
     replicate 6 \<lparr>lat = NaN, lon = NaN, time = 1754071200000\<rparr>"
  by (simp add: routeHandler_def
        flight_path_identical_airports [OF airports_lookup_examples(2)] Let_def)

text \<open>
  C10. For every pair of different known airports and every departure time at most
  \<open>8.6e15\<close> ms from the epoch, \<open>calculateFlightPath\<close> returns a path of \<open>n + 1\<close>
  waypoints with \<open>n \<ge> 5\<close>; its \<open>i\<close>-th waypoint is the great-circle point at the
  progress fraction \<open>i / n\<close>, the fractions rise strictly from 0 to 1, and the timestamps
  rise strictly.
\<close>

theorem flight_path_monotone:
  "map_of AIRPORTS (toUpperCase fromAirport) = Some A \<and>
   map_of AIRPORTS (toUpperCase toAirport) = Some B \<and>
   toUpperCase fromAirport \<noteq> toUpperCase toAirport \<and>
   \<bar>departureTime\<bar> \<le> 8600000000000000 \<longrightarrow>
     (\<exists>waypoints n.
        calculateFlightPath fromAirport toAirport departureTime = Inr waypoints \<and>
        5 \<le> n \<and> length waypoints = n + 1 \<and>
        (\<forall>i. i \<le> n \<longrightarrow>
           waypoints ! i = waypointAt A B departureTime (distanceKm A B) (int n) (int i)) \<and>
        (\<forall>i j. i < j \<and> j \<le> n \<longrightarrow>
           time (waypoints ! i) < time (waypoints ! j) \<and> real i / real n < real j / real n) \<and>
        real 0 / real n = 0 \<and> real n / real n = 1)"
proof
  assume h: "map_of AIRPORTS (toUpperCase fromAirport) = Some A \<and>
   map_of AIRPORTS (toUpperCase toAirport) = Some B \<and>
   toUpperCase fromAirport \<noteq> toUpperCase toAirport \<and>
   \<bar>departureTime\<bar> \<le> 8600000000000000"
  then have t: "\<bar>of_int departureTime\<bar> \<le> (8600000000000000::real)" by linarith
  from h have a: "map_of AIRPORTS (toUpperCase fromAirport) = Some A"
    and b: "map_of AIRPORTS (toUpperCase toAirport) = Some B"
    and ne: "toUpperCase fromAirport \<noteq> toUpperCase toAirport" by blast+
  define m where "m = max 5 \<lfloor>distanceKm A B / 50\<rfloor>"
  define n where "n = nat m"
  define ws where "ws = map (waypointAt A B departureTime (distanceKm A B) m) [0..m]"
  have m: "5 \<le> m" by (simp add: m_def)
  have mn: "m = int n" using m by (simp add: n_def)
  have run: "calculateFlightPath fromAirport toAirport departureTime = Inr ws"
    unfolding ws_def m_def by (rule calculateFlightPath_run [OF a b t])
  have len: "length ws = n + 1" using m by (simp add: ws_def n_def nat_add_distrib)
  have nth: "ws ! i = waypointAt A B departureTime (distanceKm A B) (int n) (int i)" if "i \<le> n" for i
    using that m by (simp add: ws_def mn)
  have step: "2 * real_of_int m \<le> 4500 * distanceKm A B"
    unfolding m_def by (rule distinct_airports_step [OF a b ne])
  have mono: "time (ws ! i) < time (ws ! j) \<and> real i / real n < real j / real n"
    if "i < j \<and> j \<le> n" for i j
  proof -
    have "time (waypointAt A B departureTime (distanceKm A B) m (int i))
        < time (waypointAt A B departureTime (distanceKm A B) m (int j))"
      using m step that by (intro waypoint_times_increase) auto
    moreover have "0 < real n" using m mn by linarith
    ultimately show ?thesis using that by (simp add: nth mn divide_strict_right_mono)
  qed
  have n5: "5 \<le> n" using m mn by linarith
  show "\<exists>waypoints n.
        calculateFlightPath fromAirport toAirport departureTime = Inr waypoints \<and>
        5 \<le> n \<and> length waypoints = n + 1 \<and>
        (\<forall>i. i \<le> n \<longrightarrow>
           waypoints ! i = waypointAt A B departureTime (distanceKm A B) (int n) (int i)) \<and>
        (\<forall>i j. i < j \<and> j \<le> n \<longrightarrow>
           time (waypoints ! i) < time (waypoints ! j) \<and> real i / real n < real j / real n) \<and>
        real 0 / real n = 0 \<and> real n / real n = 1"
    using run n5 len nth mono by (intro exI [of _ ws] exI [of _ n]) auto
qed

theorem flight_path_monotone_witness:
  "\<exists>waypoints n.
     calculateFlightPath ''DEL'' ''JAI'' 1754071200000 = Inr waypoints \<and>
     5 \<le> n \<and> length waypoints = n + 1 \<and>
     time (waypoints ! 0) = 1754071200000 \<and>
     time (waypoints ! 0) < time (waypoints ! 1) \<and>
     time (waypoints ! 1) < time (waypoints ! n)"
proof -
  have ne: "toUpperCase ''DEL'' \<noteq> toUpperCase ''JAI''" unfolding toUpperCase_examples by simp
  obtain ws n where w: "calculateFlightPath ''DEL'' ''JAI'' 1754071200000 = Inr ws"
    "5 \<le> n" "length ws = n + 1"
    "\<forall>i. i \<le> n \<longrightarrow>
       ws ! i = waypointAt (28.5562, 77.1) (26.8282, 75.8056) 1754071200000
                  (distanceKm (28.5562, 77.1) (26.8282, 75.8056)) (int n) (int i)"
    "\<forall>i j. i < j \<and> j \<le> n \<longrightarrow>
       time (ws ! i) < time (ws ! j) \<and> real i / real n < real j / real n"
    using flight_path_monotone [of "''DEL''" "(28.5562, 77.1)" "''JAI''" "(26.8282, 75.8056)"
        1754071200000] airports_lookup_examples(2,3) ne
    by auto
  have "time (ws ! 0) = 1754071200000" using w(2,4) by (simp add: waypointAt_def trunc_def)
  moreover have "time (ws ! 0) < time (ws ! 1)" using w(2,5) by simp
  moreover have "time (ws ! 1) < time (ws ! n)" using w(2,5) by simp
  ultimately show ?thesis using w(1,2,3) by blast
qed

end
